theory Spec2Isabelle
  imports Complex_Main
begin

section \<open>Conventions of the embedding\<close>

text \<open>
  The program is a TypeScript service: a CRM connector (\<^verbatim>\<open>connectors/crmConnector.ts\<close>), a vector
  store adapter (\<^verbatim>\<open>services/vectorStore.ts\<close>), a RAG engine (\<^verbatim>\<open>services/rag.ts\<close>) and an
  ingestion service (\<^verbatim>\<open>services/dataIngestion.ts\<close>), over the interfaces of
  \<^verbatim>\<open>types/index.ts\<close>. The engine and the ingestion service are the second and third part of
  the listing \<^verbatim>\<open>src/config/env.ts\<close>; their line numbers below are those of that listing.

  \<^item> A JavaScript \<^verbatim>\<open>number\<close> is a finite binary64 value, modelled as the \<^typ>\<open>real\<close> it
    denotes. The arithmetic of the modelled code (\<^verbatim>\<open>+\<close>, \<^verbatim>\<open>/\<close>, \<^verbatim>\<open>*\<close>) rounds its exact
    result to binary64, to nearest with ties to even, subnormal numbers included (section
    ``Binary64 arithmetic''). NaN and the infinities are not modelled: the one operation of
    the modelled code that leaves the finite numbers on finite operands is the division
    \<^verbatim>\<open>1 / (1 + distance)\<close> at \<^verbatim>\<open>distance = -1\<close>, and the theorems about that division are
    stated for non-negative or absent distances.
  \<^item> A JavaScript string is a \<^typ>\<open>string\<close> holding its UTF-8 bytes, so the Japanese literals
    of the source are written as byte lists.
  \<^item> An optional field \<^verbatim>\<open>f?: T\<close> is a \<^typ>\<open>'a option\<close>; \<open>None\<close> is \<^verbatim>\<open>undefined\<close>.
  \<^item> \<^verbatim>\<open>throw\<close> is the left injection of a sum; an \<^verbatim>\<open>async\<close> method that talks to an outside
    service takes the state of the outside world and returns it with its result.
\<close>

type_synonym number = real

section \<open>Binary64 arithmetic\<close>

text \<open>Rounding of a real to the nearest integer, ties to the even one.\<close>

definition rne :: "real \<Rightarrow> int" where
  "rne q =
     (let f = \<lfloor>q\<rfloor>; r = q - of_int f
      in if r < 1 / 2 then f else if 1 / 2 < r then f + 1 else if even f then f else f + 1)"

text \<open>The binade of a positive real \<open>x\<close>: the exponent \<open>e\<close> with \<open>2 ^ e \<le> x < 2 ^ (e + 1)\<close>, but
  never below \<open>-1022\<close>, the exponent of the subnormal numbers. It is found by halving from
  above 2 and by doubling, at most 1022 times, from below 1.\<close>

function binade_up :: "real \<Rightarrow> int" where
  "binade_up x = (if 2 \<le> x then binade_up (x / 2) + 1 else 0)"
  by pat_completeness auto
termination
proof (relation "measure (\<lambda>x. nat \<lfloor>x\<rfloor>)")
  show "wf (measure (\<lambda>x::real. nat \<lfloor>x\<rfloor>))" by simp
next
  fix x :: real assume x: "2 \<le> x"
  have "x / 2 \<le> x - 1" using x by simp
  then have "\<lfloor>x / 2\<rfloor> \<le> \<lfloor>x - 1\<rfloor>" by (rule floor_mono)
  then have "\<lfloor>x / 2\<rfloor> < \<lfloor>x\<rfloor>" by simp
  moreover have "0 < \<lfloor>x\<rfloor>" using x by simp
  ultimately show "(x / 2, x) \<in> measure (\<lambda>x. nat \<lfloor>x\<rfloor>)" by simp
qed

declare binade_up.simps [simp del]

fun binade_down :: "nat \<Rightarrow> real \<Rightarrow> int" where
  "binade_down 0 x = 0"
| "binade_down (Suc k) x = (if x < 1 then binade_down k (2 * x) - 1 else 0)"

definition binade :: "real \<Rightarrow> int" where
  "binade x = (if 1 \<le> x then binade_up x else binade_down 1022 x)"

text \<open>The spacing of the binary64 numbers in the binade of \<open>x\<close>: 52 fraction bits.\<close>

definition ulp :: "real \<Rightarrow> real" where
  "ulp x = 2 powi (binade x - 52)"

text \<open>The binary64 number nearest to a real, ties to even; zero stays zero and the sign is
  kept. The exponent is not bounded above: where the rounded value exceeds the largest
  binary64 number \<open>max64\<close> in magnitude, JavaScript has an infinity, which the model does not
  represent, so that \<open>binary64 x\<close> is the value of the code only while it stays within
  \<open>max64\<close>.\<close>

definition binary64 :: "real \<Rightarrow> real" where
  "binary64 x = sgn x * (of_int (rne (\<bar>x\<bar> / ulp \<bar>x\<bar>)) * ulp \<bar>x\<bar>)"

text \<open>The largest binary64 number, and the reals that are finite binary64 numbers.\<close>

definition max64 :: real where
  "max64 = (2 ^ 53 - 1) * 2 ^ 971"

definition finite64 :: "real \<Rightarrow> bool" where
  "finite64 x \<longleftrightarrow> binary64 x = x \<and> \<bar>x\<bar> \<le> max64"

text \<open>The operators \<^verbatim>\<open>a + b\<close>, \<^verbatim>\<open>a / b\<close> and \<^verbatim>\<open>a * b\<close> on numbers: the exact result, rounded. (A
  division by zero is not finite in JavaScript and lies outside the model.)\<close>

definition plus64 :: "number \<Rightarrow> number \<Rightarrow> number" where
  "plus64 a b = binary64 (a + b)"

definition divide64 :: "number \<Rightarrow> number \<Rightarrow> number" where
  "divide64 a b = binary64 (a / b)"

definition times64 :: "number \<Rightarrow> number \<Rightarrow> number" where
  "times64 a b = binary64 (a * b)"

text \<open>Truthiness of an optional string and of an optional number, as \<^verbatim>\<open>||\<close>, \<^verbatim>\<open>?:\<close> and \<^verbatim>\<open>!\<close> test it:
  \<^verbatim>\<open>undefined\<close>, the empty string and zero are falsy.\<close>

fun truthy_str :: "string option \<Rightarrow> bool" where
  "truthy_str None = False"
| "truthy_str (Some s) = (s \<noteq> [])"

fun truthy_num :: "number option \<Rightarrow> bool" where
  "truthy_num None = False"
| "truthy_num (Some n) = (n \<noteq> 0)"

text \<open>\<^verbatim>\<open>a[i]\<close> on an array: \<^verbatim>\<open>undefined\<close> out of range.\<close>

fun nth_opt :: "'a list \<Rightarrow> nat \<Rightarrow> 'a option" where
  "nth_opt [] i = None"
| "nth_opt (x # xs) 0 = Some x"
| "nth_opt (x # xs) (Suc i) = nth_opt xs i"

text \<open>\<^verbatim>\<open>parts.join(sep)\<close>.\<close>

fun join :: "string \<Rightarrow> string list \<Rightarrow> string" where
  "join sep [] = []"
| "join sep [x] = x"
| "join sep (x # y # ys) = x @ sep @ join sep (y # ys)"

definition NL :: string where
  "NL = [CHR 0x0A]"

text \<open>\<^verbatim>\<open>text.split('\n')\<close>, used to read the lines of a rendered text back.\<close>

fun split_lines :: "string \<Rightarrow> string list" where
  "split_lines [] = [[]]"
| "split_lines (c # cs) =
     (if c = CHR 0x0A then [] # split_lines cs
      else (case split_lines cs of l # ls \<Rightarrow> (c # l) # ls | [] \<Rightarrow> [[c]]))"

section \<open>Data model (\<^verbatim>\<open>types/index.ts\<close>)\<close>

record Customer =
  customerId :: string
  name :: string
  phone :: string
  email :: "string option"
  address :: "string option"
  totalSales :: number
  visitCount :: number
  registeredAt :: "string option"
  "notes" :: "string option"

datatype QuoteStatus = draft | sent | approved | rejected | expired

record QuoteItem =
  itemId :: string
  description :: string
  quantity :: number
  unitPrice :: number
  totalPrice :: number

record Quote =
  quoteId :: string
  customerId :: string
  vehicleInfo :: string
  items :: "QuoteItem list"
  totalAmount :: number
  status :: QuoteStatus
  quoteDate :: string
  validUntil :: "string option"
  "notes" :: "string option"

datatype WorkType = repair | paint | inspection | maintenance | other

record PartUsed =
  partId :: string
  partName :: string
  quantity :: number
  unitPrice :: number

record WorkHistory =
  workId :: string
  customerId :: string
  vehicleInfo :: string
  workType :: WorkType
  description :: string
  technician :: string
  workDate :: string
  partsUsed :: "PartUsed list option"
  laborCost :: number
  partsCost :: number
  totalCost :: number
  rating :: "number option"
  "notes" :: "string option"

text \<open>\<^verbatim>\<open>type CRMData = Customer | Quote | WorkHistory\<close> (crmConnector.ts, line 13).\<close>

datatype CRMData = CustomerData Customer | QuoteData Quote | WorkHistoryData WorkHistory

datatype DataSourceType = csv | excel | json | api

record DataSource =
  type :: DataSourceType
  path :: "string option"
  apiEndpoint :: "string option"
  headers :: "(string \<times> string) list option"

record DataIngestionRequest =
  source :: DataSource
  dataType :: string

text \<open>\<^verbatim>\<open>Record<string, any>\<close> metadata. The modelled code builds two shapes: the empty object
  \<^verbatim>\<open>{}\<close> and \<^verbatim>\<open>{type: dataType, ...item}\<close>.\<close>

datatype metadata = EmptyObject | TypedItem string CRMData

record RAGOptions =
  topK :: "nat option"
  minScore :: "number option"

record RAGQuery =
  query :: string
  options :: "RAGOptions option"

record SearchSource =
  content :: string
  metadata :: metadata
  score :: number

record RAGResponse =
  answer :: string
  sources :: "SearchSource list"
  confidence :: number

record VectorDocument =
  id :: string
  content :: string
  metadata :: metadata
  embedding :: "number list option"

record VectorSearchOptions =
  topK :: "nat option"
  filter :: "metadata option"

record VectorSearchResult =
  document :: VectorDocument
  score :: number
  distance :: "number option"

section \<open>Errors and the outside world\<close>

text \<open>Every \<^verbatim>\<open>throw new Error(...)\<close> of the modelled code is a constructor (the Japanese message is
  given in English in the comment), \<open>TypeError\<close> is a property read on \<^verbatim>\<open>undefined\<close>, and
  \<open>Upstream\<close> is whatever an outside service throws.\<close>

datatype error =
    TypeError
  | Upstream
  | JsonPathRequired \<comment> \<open>crmConnector.ts line 107: "a JSON source needs a path"\<close>
  | CsvPathRequired \<comment> \<open>line 113\<close>
  | ExcelPathRequired \<comment> \<open>line 119\<close>
  | ExcelNotImplemented \<comment> \<open>line 122: "reading Excel is not implemented"\<close>
  | ApiEndpointRequired \<comment> \<open>line 126\<close>
  | CollectionInitFailed \<comment> \<open>vectorStore.ts line 50\<close>
  | CollectionNotInitialized \<comment> \<open>lines 76, 103, 139: "the collection is not initialised; call initialize() first"\<close>
  | EmbeddingFailed \<comment> \<open>line 67\<close>
  | AddDocumentsFailed \<comment> \<open>line 127\<close>
  | VectorSearchFailed \<comment> \<open>line 183\<close>
  | RAGQueryFailed \<comment> \<open>rag.ts, line 220 of the listing: "the RAG query failed"\<close>
  | IngestFailed \<comment> \<open>dataIngestion.ts, line 396 of the listing: "the ingestion of the data failed"\<close>

text \<open>An operation on the outside world (file system, network, Chroma, OpenAI, Anthropic) takes
  the world and returns it with a result or a thrown error.\<close>

type_synonym ('a, 'w) io = "'w \<Rightarrow> (error + 'a) \<times> 'w"

text \<open>The response of Chroma's \<^verbatim>\<open>collection.query\<close>, one row per query embedding. An element
  \<open>None\<close> is \<^verbatim>\<open>null\<close> for a document or a metadata, and \<^verbatim>\<open>undefined\<close> for a distance.\<close>

record QueryResponse =
  ids :: "string list list"
  documents :: "string option list list option"
  metadatas :: "metadata option list list option"
  distances :: "number option list list option"

text \<open>The Anthropic messages API, as far as \<^verbatim>\<open>query\<close> uses it.\<close>

datatype Role = user | assistant

record MessageParam =
  role :: Role
  content :: string

record MessageCreateParams =
  model :: string
  max_tokens :: nat
  system :: string
  messages :: "MessageParam list"

datatype ContentBlock = TextBlock string | OtherBlock string

record Message =
  content :: "ContentBlock list"

text \<open>What the modelled methods call and what lies outside them, taken as parameters: the
  configured collection name (\<^verbatim>\<open>env.COLLECTION_NAME\<close>); the Chroma client and collection; the
  OpenAI embeddings call (its result is \<^verbatim>\<open>response.data[0].embedding\<close>); the Anthropic
  messages call; and the three private readers of the connector (\<^verbatim>\<open>readJSON\<close>, \<^verbatim>\<open>readCSV\<close>,
  \<^verbatim>\<open>fetchFromAPI\<close>, lines 22-98 of crmConnector.ts), which do the file and network input and
  the parsing, and are taken by their contract: each returns the records it read or throws.
  \<open>'c\<close> is Chroma's collection handle, \<open>'w\<close> the outside world.\<close>

record ('c, 'w) services =
  COLLECTION_NAME :: string
  readJSON :: "string \<Rightarrow> (CRMData list, 'w) io"
  readCSV :: "string \<Rightarrow> (CRMData list, 'w) io"
  fetchFromAPI :: "string \<Rightarrow> (string \<times> string) list option \<Rightarrow> (CRMData list, 'w) io"
  getOrCreateCollection :: "string \<Rightarrow> ('c, 'w) io"
  embeddings_create :: "string \<Rightarrow> (number list, 'w) io"
  collection_add ::
    "'c \<Rightarrow> string list \<Rightarrow> string list \<Rightarrow> metadata list \<Rightarrow> number list list \<Rightarrow> (unit, 'w) io"
  collection_query :: "'c \<Rightarrow> number list \<Rightarrow> nat \<Rightarrow> metadata option \<Rightarrow> (QueryResponse, 'w) io"
  messages_create :: "MessageCreateParams \<Rightarrow> (Message, 'w) io"

text \<open>The built-ins of the JavaScript runtime that format values: a number inside a template
  literal, \<^verbatim>\<open>n.toLocaleString()\<close> (which depends on the locale of the host),
  \<^verbatim>\<open>n.toFixed(digits)\<close> and \<^verbatim>\<open>JSON.stringify(data, null, indent)\<close>.\<close>

record js_runtime =
  numberToString :: "number \<Rightarrow> string"
  toLocaleString :: "number \<Rightarrow> string"
  toFixed :: "number \<Rightarrow> nat \<Rightarrow> string"
  JSON_stringify :: "CRMData \<Rightarrow> nat \<Rightarrow> string"

section \<open>CRM connector (\<^verbatim>\<open>connectors/crmConnector.ts\<close>)\<close>

text \<open>\<^verbatim>\<open>loadData\<close> (lines 103-133). \<^verbatim>\<open>!source.path\<close> holds for a missing and for an empty path. The
  \<^verbatim>\<open>default\<close> branch of the \<^verbatim>\<open>switch\<close> is unreachable for the four values of
  \<^verbatim>\<open>DataSourceType\<close>.\<close>

definition loadData :: "('c, 'w) services \<Rightarrow> DataSource \<Rightarrow> (CRMData list, 'w) io" where
  "loadData svc src w =
     (case type src of
        json \<Rightarrow>
          (if \<not> truthy_str (path src) then (Inl JsonPathRequired, w)
           else readJSON svc (the (path src)) w)
      | csv \<Rightarrow>
          (if \<not> truthy_str (path src) then (Inl CsvPathRequired, w)
           else readCSV svc (the (path src)) w)
      | excel \<Rightarrow>
          (if \<not> truthy_str (path src) then (Inl ExcelPathRequired, w)
           else (Inl ExcelNotImplemented, w))
      | api \<Rightarrow>
          (if \<not> truthy_str (apiEndpoint src) then (Inl ApiEndpointRequired, w)
           else fetchFromAPI svc (the (apiEndpoint src)) (headers src) w))"

subsection \<open>The literals of \<^verbatim>\<open>convertToText\<close>\<close>

definition NASHI :: string where \<comment> \<open>the marker "nashi" (none)\<close>
  "NASHI =
     [CHR 0xE3, CHR 0x81, CHR 0xAA, CHR 0xE3, CHR 0x81, CHR 0x97]"

definition YEN :: string where \<comment> \<open>"yen"\<close>
  "YEN =
     [CHR 0xE5, CHR 0x86, CHR 0x86]"

definition T_customer :: string where \<comment> \<open>title "customer information"\<close>
  "T_customer =
     [CHR 0xE9, CHR 0xA1, CHR 0xA7, CHR 0xE5, CHR 0xAE, CHR 0xA2, CHR 0xE6, CHR 0x83, CHR 0x85,
     CHR 0xE5, CHR 0xA0, CHR 0xB1]"

definition L_customerId :: string where \<comment> \<open>"customer ID: "\<close>
  "L_customerId =
     [CHR 0xE9, CHR 0xA1, CHR 0xA7, CHR 0xE5, CHR 0xAE, CHR 0xA2] @ ''ID: ''"

definition L_name :: string where \<comment> \<open>"customer name: "\<close>
  "L_name =
     [CHR 0xE9, CHR 0xA1, CHR 0xA7, CHR 0xE5, CHR 0xAE, CHR 0xA2, CHR 0xE5, CHR 0x90, CHR 0x8D] @
     '': ''"

definition L_phone :: string where \<comment> \<open>"telephone number: "\<close>
  "L_phone =
     [CHR 0xE9, CHR 0x9B, CHR 0xBB, CHR 0xE8, CHR 0xA9, CHR 0xB1, CHR 0xE7, CHR 0x95, CHR 0xAA,
     CHR 0xE5, CHR 0x8F, CHR 0xB7] @ '': ''"

definition L_email :: string where \<comment> \<open>"mail address: "\<close>
  "L_email =
     [CHR 0xE3, CHR 0x83, CHR 0xA1, CHR 0xE3, CHR 0x83, CHR 0xBC, CHR 0xE3, CHR 0x83, CHR 0xAB,
     CHR 0xE3, CHR 0x82, CHR 0xA2, CHR 0xE3, CHR 0x83, CHR 0x89, CHR 0xE3, CHR 0x83,
     CHR 0xAC, CHR 0xE3, CHR 0x82, CHR 0xB9] @ '': ''"

definition L_address :: string where \<comment> \<open>"address: "\<close>
  "L_address =
     [CHR 0xE4, CHR 0xBD, CHR 0x8F, CHR 0xE6, CHR 0x89, CHR 0x80] @ '': ''"

definition L_totalSales :: string where \<comment> \<open>"cumulative sales: "\<close>
  "L_totalSales =
     [CHR 0xE7, CHR 0xB4, CHR 0xAF, CHR 0xE8, CHR 0xA8, CHR 0x88, CHR 0xE5, CHR 0xA3, CHR 0xB2,
     CHR 0xE4, CHR 0xB8, CHR 0x8A] @ '': ''"

definition L_visitCount :: string where \<comment> \<open>"number of visits: "\<close>
  "L_visitCount =
     [CHR 0xE6, CHR 0x9D, CHR 0xA5, CHR 0xE5, CHR 0xBA, CHR 0x97, CHR 0xE5, CHR 0x9B, CHR 0x9E,
     CHR 0xE6, CHR 0x95, CHR 0xB0] @ '': ''"

definition KAI :: string where \<comment> \<open>"times"\<close>
  "KAI =
     [CHR 0xE5, CHR 0x9B, CHR 0x9E]"

definition L_notes :: string where \<comment> \<open>"memo: "\<close>
  "L_notes =
     [CHR 0xE3, CHR 0x83, CHR 0xA1, CHR 0xE3, CHR 0x83, CHR 0xA2] @ '': ''"

definition T_quote :: string where \<comment> \<open>title "quote information"\<close>
  "T_quote =
     [CHR 0xE8, CHR 0xA6, CHR 0x8B, CHR 0xE7, CHR 0xA9, CHR 0x8D, CHR 0xE6, CHR 0x83, CHR 0x85,
     CHR 0xE5, CHR 0xA0, CHR 0xB1]"

definition L_quoteId :: string where \<comment> \<open>"quote ID: "\<close>
  "L_quoteId =
     [CHR 0xE8, CHR 0xA6, CHR 0x8B, CHR 0xE7, CHR 0xA9, CHR 0x8D] @ ''ID: ''"

definition L_vehicleInfo :: string where \<comment> \<open>"vehicle information: "\<close>
  "L_vehicleInfo =
     [CHR 0xE8, CHR 0xBB, CHR 0x8A, CHR 0xE4, CHR 0xB8, CHR 0xA1, CHR 0xE6, CHR 0x83, CHR 0x85,
     CHR 0xE5, CHR 0xA0, CHR 0xB1] @ '': ''"

definition L_items :: string where \<comment> \<open>"quote items:"\<close>
  "L_items =
     [CHR 0xE8, CHR 0xA6, CHR 0x8B, CHR 0xE7, CHR 0xA9, CHR 0x8D, CHR 0xE6, CHR 0x98, CHR 0x8E,
     CHR 0xE7, CHR 0xB4, CHR 0xB0] @ '':''"

definition L_totalAmount :: string where \<comment> \<open>"total amount: "\<close>
  "L_totalAmount =
     [CHR 0xE5, CHR 0x90, CHR 0x88, CHR 0xE8, CHR 0xA8, CHR 0x88, CHR 0xE9, CHR 0x87, CHR 0x91,
     CHR 0xE9, CHR 0xA1, CHR 0x8D] @ '': ''"

definition L_status :: string where \<comment> \<open>"status: "\<close>
  "L_status =
     [CHR 0xE3, CHR 0x82, CHR 0xB9, CHR 0xE3, CHR 0x83, CHR 0x86, CHR 0xE3, CHR 0x83, CHR 0xBC,
     CHR 0xE3, CHR 0x82, CHR 0xBF, CHR 0xE3, CHR 0x82, CHR 0xB9] @ '': ''"

definition L_quoteDate :: string where \<comment> \<open>"quote date: "\<close>
  "L_quoteDate =
     [CHR 0xE8, CHR 0xA6, CHR 0x8B, CHR 0xE7, CHR 0xA9, CHR 0x8D, CHR 0xE6, CHR 0x97, CHR 0xA5] @
     '': ''"

definition T_work :: string where \<comment> \<open>title "work history"\<close>
  "T_work =
     [CHR 0xE4, CHR 0xBD, CHR 0x9C, CHR 0xE6, CHR 0xA5, CHR 0xAD, CHR 0xE5, CHR 0xB1, CHR 0xA5,
     CHR 0xE6, CHR 0xAD, CHR 0xB4]"

definition L_workId :: string where \<comment> \<open>"work ID: "\<close>
  "L_workId =
     [CHR 0xE4, CHR 0xBD, CHR 0x9C, CHR 0xE6, CHR 0xA5, CHR 0xAD] @ ''ID: ''"

definition L_workType :: string where \<comment> \<open>"work type: "\<close>
  "L_workType =
     [CHR 0xE4, CHR 0xBD, CHR 0x9C, CHR 0xE6, CHR 0xA5, CHR 0xAD, CHR 0xE7, CHR 0xA8, CHR 0xAE,
     CHR 0xE5, CHR 0x88, CHR 0xA5] @ '': ''"

definition L_description :: string where \<comment> \<open>"work description: "\<close>
  "L_description =
     [CHR 0xE4, CHR 0xBD, CHR 0x9C, CHR 0xE6, CHR 0xA5, CHR 0xAD, CHR 0xE5, CHR 0x86, CHR 0x85,
     CHR 0xE5, CHR 0xAE, CHR 0xB9] @ '': ''"

definition L_technician :: string where \<comment> \<open>"technician in charge: "\<close>
  "L_technician =
     [CHR 0xE6, CHR 0x8B, CHR 0x85, CHR 0xE5, CHR 0xBD, CHR 0x93, CHR 0xE6, CHR 0x8A, CHR 0x80,
     CHR 0xE8, CHR 0xA1, CHR 0x93, CHR 0xE8, CHR 0x80, CHR 0x85] @ '': ''"

definition L_workDate :: string where \<comment> \<open>"work date: "\<close>
  "L_workDate =
     [CHR 0xE4, CHR 0xBD, CHR 0x9C, CHR 0xE6, CHR 0xA5, CHR 0xAD, CHR 0xE6, CHR 0x97, CHR 0xA5] @
     '': ''"

definition L_partsUsed :: string where \<comment> \<open>"parts used:"\<close>
  "L_partsUsed =
     [CHR 0xE4, CHR 0xBD, CHR 0xBF, CHR 0xE7, CHR 0x94, CHR 0xA8, CHR 0xE9, CHR 0x83, CHR 0xA8,
     CHR 0xE5, CHR 0x93, CHR 0x81] @ '':''"

definition L_laborCost :: string where \<comment> \<open>"labor cost: "\<close>
  "L_laborCost =
     [CHR 0xE5, CHR 0xB7, CHR 0xA5, CHR 0xE8, CHR 0xB3, CHR 0x83] @ '': ''"

definition L_partsCost :: string where \<comment> \<open>"parts cost: "\<close>
  "L_partsCost =
     [CHR 0xE9, CHR 0x83, CHR 0xA8, CHR 0xE5, CHR 0x93, CHR 0x81, CHR 0xE4, CHR 0xBB, CHR 0xA3] @
     '': ''"

definition L_totalCost :: string where \<comment> \<open>"total cost: "\<close>
  "L_totalCost =
     [CHR 0xE5, CHR 0x90, CHR 0x88, CHR 0xE8, CHR 0xA8, CHR 0x88, CHR 0xE8, CHR 0xB2, CHR 0xBB,
     CHR 0xE7, CHR 0x94, CHR 0xA8] @ '': ''"

definition L_rating :: string where \<comment> \<open>"rating: "\<close>
  "L_rating =
     [CHR 0xE8, CHR 0xA9, CHR 0x95, CHR 0xE4, CHR 0xBE, CHR 0xA1] @ '': ''"

definition STARS :: string where \<comment> \<open>"stars"\<close>
  "STARS =
     [CHR 0xE3, CHR 0x81, CHR 0xA4, CHR 0xE6, CHR 0x98, CHR 0x9F]"

text \<open>The string enums as they print inside a template literal.\<close>

fun QuoteStatus_str :: "QuoteStatus \<Rightarrow> string" where
  "QuoteStatus_str draft = ''draft''"
| "QuoteStatus_str sent = ''sent''"
| "QuoteStatus_str approved = ''approved''"
| "QuoteStatus_str rejected = ''rejected''"
| "QuoteStatus_str expired = ''expired''"

fun WorkType_str :: "WorkType \<Rightarrow> string" where
  "WorkType_str repair = ''repair''"
| "WorkType_str paint = ''paint''"
| "WorkType_str inspection = ''inspection''"
| "WorkType_str maintenance = ''maintenance''"
| "WorkType_str other = ''other''"

text \<open>\<^verbatim>\<open>x || fallback\<close> on an optional string.\<close>

definition or_else :: "string option \<Rightarrow> string \<Rightarrow> string" where
  "or_else x fallback = (if truthy_str x then the x else fallback)"

subsection \<open>\<^verbatim>\<open>convertToText\<close> (lines 173-226)\<close>

text \<open>The three template literals, one per known tag; the line breaks of a template are \<open>NL\<close>.\<close>

definition customerText :: "js_runtime \<Rightarrow> Customer \<Rightarrow> string" where
  "customerText rt customer =
     T_customer @ NL @
     L_customerId @ Customer.customerId customer @ NL @
     L_name @ name customer @ NL @
     L_phone @ phone customer @ NL @
     L_email @ or_else (email customer) NASHI @ NL @
     L_address @ or_else (address customer) NASHI @ NL @
     L_totalSales @ toLocaleString rt (totalSales customer) @ YEN @ NL @
     L_visitCount @ numberToString rt (visitCount customer) @ KAI @ NL @
     (if truthy_str (Customer.notes customer) then L_notes @ the (Customer.notes customer) else [])"

definition quoteText :: "js_runtime \<Rightarrow> Quote \<Rightarrow> string" where
  "quoteText rt quote =
     (let itemsText =
            join NL (map (\<lambda>item. ''  - '' @ QuoteItem.description item @ '': '' @
                                  toLocaleString rt (totalPrice item) @ YEN) (items quote))
      in T_quote @ NL @
         L_quoteId @ quoteId quote @ NL @
         L_customerId @ Quote.customerId quote @ NL @
         L_vehicleInfo @ Quote.vehicleInfo quote @ NL @
         L_items @ NL @
         itemsText @ NL @
         L_totalAmount @ toLocaleString rt (totalAmount quote) @ YEN @ NL @
         L_status @ QuoteStatus_str (status quote) @ NL @
         L_quoteDate @ quoteDate quote @ NL @
         (if truthy_str (Quote.notes quote) then L_notes @ the (Quote.notes quote) else []))"

definition workText :: "js_runtime \<Rightarrow> WorkHistory \<Rightarrow> string" where
  "workText rt work =
     (let partsText =
            (case partsUsed work of
               Some parts \<Rightarrow>
                 join NL (map (\<lambda>part. ''  - '' @ partName part @ '': '' @
                                       toLocaleString rt (PartUsed.unitPrice part) @ YEN) parts)
             | None \<Rightarrow> [])
      in T_work @ NL @
         L_workId @ workId work @ NL @
         L_customerId @ WorkHistory.customerId work @ NL @
         L_vehicleInfo @ WorkHistory.vehicleInfo work @ NL @
         L_workType @ WorkType_str (workType work) @ NL @
         L_description @ WorkHistory.description work @ NL @
         L_technician @ technician work @ NL @
         L_workDate @ workDate work @ NL @
         (if partsText \<noteq> [] then L_partsUsed @ NL @ partsText else []) @ NL @
         L_laborCost @ toLocaleString rt (laborCost work) @ YEN @ NL @
         L_partsCost @ toLocaleString rt (partsCost work) @ YEN @ NL @
         L_totalCost @ toLocaleString rt (totalCost work) @ YEN @ NL @
         (if truthy_num (rating work) then L_rating @ numberToString rt (the (rating work)) @ STARS
          else []) @ NL @
         (if truthy_str (WorkHistory.notes work) then L_notes @ the (WorkHistory.notes work) else []))"

text \<open>\<^verbatim>\<open>data as Customer\<close> is an unchecked cast. On a record of another interface the template
  reads a field the record does not have and calls a method on \<^verbatim>\<open>undefined\<close>
  (\<^verbatim>\<open>customer.totalSales.toLocaleString()\<close>, \<^verbatim>\<open>quote.items.map\<close>,
  \<^verbatim>\<open>work.laborCost.toLocaleString()\<close>), which throws a TypeError.\<close>

definition convertToText :: "js_runtime \<Rightarrow> CRMData \<Rightarrow> string \<Rightarrow> error + string" where
  "convertToText rt data dataType' =
     (if dataType' = ''customer'' then
        (case data of CustomerData customer \<Rightarrow> Inr (customerText rt customer) | _ \<Rightarrow> Inl TypeError)
      else if dataType' = ''quote'' then
        (case data of QuoteData quote \<Rightarrow> Inr (quoteText rt quote) | _ \<Rightarrow> Inl TypeError)
      else if dataType' = ''work_history'' then
        (case data of WorkHistoryData work \<Rightarrow> Inr (workText rt work) | _ \<Rightarrow> Inl TypeError)
      else Inr (JSON_stringify rt data 2))"

section \<open>Vector store (\<^verbatim>\<open>services/vectorStore.ts\<close>)\<close>

text \<open>The one mutable field of the class: \<^verbatim>\<open>collection: Collection | null\<close>, \<^verbatim>\<open>null\<close> until
  \<^verbatim>\<open>initialize\<close> has succeeded.\<close>

record 'c VectorStore =
  collection :: "'c option"

text \<open>\<^verbatim>\<open>initialize\<close> (lines 39-52) assigns the collection or throws.\<close>

definition initialize ::
  "('c, 'w) services \<Rightarrow> 'c VectorStore \<Rightarrow> 'w \<Rightarrow> (error + 'c VectorStore) \<times> 'w" where
  "initialize svc vs w =
     (case getOrCreateCollection svc (COLLECTION_NAME svc) w of
        (Inr c, w') \<Rightarrow> (Inr (vs\<lparr>collection := Some c\<rparr>), w')
      | (Inl _, w') \<Rightarrow> (Inl CollectionInitFailed, w'))"

text \<open>\<^verbatim>\<open>generateEmbedding\<close> (lines 57-69).\<close>

definition generateEmbedding :: "('c, 'w) services \<Rightarrow> string \<Rightarrow> (number list, 'w) io" where
  "generateEmbedding svc text w =
     (case embeddings_create svc text w of
        (Inr e, w') \<Rightarrow> (Inr e, w')
      | (Inl _, w') \<Rightarrow> (Inl EmbeddingFailed, w'))"

text \<open>\<^verbatim>\<open>Promise.all(documents.map((doc) => this.generateEmbedding(doc.content)))\<close>: every call is
  started, and the whole rejects when one of them does. The calls are taken in the order of the
  list.\<close>

fun generateEmbeddings :: "('c, 'w) services \<Rightarrow> string list \<Rightarrow> (number list list, 'w) io" where
  "generateEmbeddings svc [] w = (Inr [], w)"
| "generateEmbeddings svc (t # ts) w =
     (case generateEmbedding svc t w of
        (r, w1) \<Rightarrow>
          (case generateEmbeddings svc ts w1 of
             (rs, w2) \<Rightarrow>
               ((case r of
                   Inl e \<Rightarrow> Inl e
                 | Inr e \<Rightarrow> (case rs of Inl e' \<Rightarrow> Inl e' | Inr es \<Rightarrow> Inr (e # es))), w2)))"

text \<open>\<^verbatim>\<open>addDocuments\<close> (lines 101-129): the check of the collection, then the early return on no
  documents, then the embeddings and the single \<^verbatim>\<open>collection.add\<close> inside \<^verbatim>\<open>try\<close>.\<close>

definition addDocuments ::
  "('c, 'w) services \<Rightarrow> 'c VectorStore \<Rightarrow> VectorDocument list \<Rightarrow> (unit, 'w) io" where
  "addDocuments svc vs docs w =
     (case collection vs of
        None \<Rightarrow> (Inl CollectionNotInitialized, w)
      | Some c \<Rightarrow>
          if length docs = 0 then (Inr (), w)
          else
            (case generateEmbeddings svc (map VectorDocument.content docs) w of
               (Inl _, w1) \<Rightarrow> (Inl AddDocumentsFailed, w1)
             | (Inr embeddings, w1) \<Rightarrow>
                 (case collection_add svc c (map VectorDocument.id docs)
                         (map VectorDocument.content docs) (map VectorDocument.metadata docs)
                         embeddings w1 of
                    (Inl _, w2) \<Rightarrow> (Inl AddDocumentsFailed, w2)
                  | (Inr _, w2) \<Rightarrow> (Inr (), w2))))"

text \<open>\<^verbatim>\<open>results.xs?.[0]?.[i]\<close>: \<^verbatim>\<open>undefined\<close> when the table, its first row or the element is
  missing.\<close>

definition at0 :: "'a option list list option \<Rightarrow> nat \<Rightarrow> 'a option" where
  "at0 table i =
     (case table of
        None \<Rightarrow> None
      | Some rows \<Rightarrow>
          (case nth_opt rows 0 of
             None \<Rightarrow> None
           | Some row \<Rightarrow> (case nth_opt row i of None \<Rightarrow> None | Some x \<Rightarrow> x)))"

text \<open>The conversion of line 166: \<^verbatim>\<open>distance !== undefined ? 1 / (1 + distance) : 0\<close>. At the
  distance \<open>-1\<close> the code divides by zero and the score is \<^verbatim>\<open>Infinity\<close>, which the model does
  not represent: there, and only there, the value of \<open>scoreOf\<close> is not that of the code.\<close>

definition scoreOf :: "number option \<Rightarrow> number" where
  "scoreOf distance' = (case distance' of Some d \<Rightarrow> divide64 1 (plus64 1 d) | None \<Rightarrow> 0)"

text \<open>The body of the loop of \<^verbatim>\<open>search\<close> (lines 160-176) at index \<open>i\<close> of the row \<open>ids0\<close>.\<close>

definition searchResultAt :: "QueryResponse \<Rightarrow> string list \<Rightarrow> nat \<Rightarrow> VectorSearchResult" where
  "searchResultAt results ids0 i =
     (let id' = ids0 ! i;
          content' = or_else (at0 (documents results) i) [];
          metadata' = (case at0 (metadatas results) i of Some m \<Rightarrow> m | None \<Rightarrow> EmptyObject);
          distance' = at0 (distances results) i;
          score' = scoreOf distance'
      in \<lparr>document = \<lparr>VectorDocument.id = id', VectorDocument.content = content',
                        VectorDocument.metadata = metadata', embedding = None\<rparr>,
          VectorSearchResult.score = score',
          distance = distance'\<rparr>)"

text \<open>Lines 155-180, "format the results": nothing is pushed when \<^verbatim>\<open>results.ids[0]\<close> is missing; else one result per
  index of that row, in its order.\<close>

definition formatResults :: "QueryResponse \<Rightarrow> VectorSearchResult list" where
  "formatResults results =
     (case nth_opt (ids results) 0 of
        None \<Rightarrow> []
      | Some ids0 \<Rightarrow> map (searchResultAt results ids0) [0 ..< length ids0])"

text \<open>\<^verbatim>\<open>search\<close> (lines 134-185); \<^verbatim>\<open>topK\<close> defaults to 5.\<close>

definition search ::
  "('c, 'w) services \<Rightarrow> 'c VectorStore \<Rightarrow> string \<Rightarrow> VectorSearchOptions \<Rightarrow>
   (VectorSearchResult list, 'w) io" where
  "search svc vs query' options' w =
     (case collection vs of
        None \<Rightarrow> (Inl CollectionNotInitialized, w)
      | Some c \<Rightarrow>
          (let topK' = (case VectorSearchOptions.topK options' of Some k \<Rightarrow> k | None \<Rightarrow> 5);
               filter' = filter options'
           in case generateEmbedding svc query' w of
                (Inl _, w1) \<Rightarrow> (Inl VectorSearchFailed, w1)
              | (Inr queryEmbedding, w1) \<Rightarrow>
                  (case collection_query svc c queryEmbedding topK' filter' w1 of
                     (Inl _, w2) \<Rightarrow> (Inl VectorSearchFailed, w2)
                   | (Inr results, w2) \<Rightarrow> (Inr (formatResults results), w2))))"

text \<open>The state of the process: the module variable \<^verbatim>\<open>vectorStoreInstance\<close> (line 275) and
  the outside world.\<close>

record ('c, 'w) state =
  vectorStoreInstance :: "'c VectorStore option"
  world :: 'w

text \<open>\<^verbatim>\<open>getVectorStore\<close> (lines 280-286). The instance is assigned before \<^verbatim>\<open>initialize\<close> is
  awaited, so it stays assigned, with no collection, when \<^verbatim>\<open>initialize\<close> throws.\<close>

definition getVectorStore ::
  "('c, 'w) services \<Rightarrow> ('c, 'w) state \<Rightarrow> (error + 'c VectorStore) \<times> ('c, 'w) state" where
  "getVectorStore svc st =
     (case vectorStoreInstance st of
        Some vs \<Rightarrow> (Inr vs, st)
      | None \<Rightarrow>
          (case initialize svc \<lparr>collection = None\<rparr> (world st) of
             (Inr vs', w') \<Rightarrow> (Inr vs', \<lparr>vectorStoreInstance = Some vs', world = w'\<rparr>)
           | (Inl e, w') \<Rightarrow>
               (Inl e, \<lparr>vectorStoreInstance = Some \<lparr>collection = None\<rparr>, world = w'\<rparr>)))"

section \<open>RAG engine (\<^verbatim>\<open>services/rag.ts\<close>)\<close>

text \<open>\<^verbatim>\<open>calculateConfidence\<close> (lines 148-156 of the listing): 0 for no sources, else the
  \<^verbatim>\<open>reduce\<close> sum of the scores over the length, under \<^verbatim>\<open>Math.min(avgScore, 1.0)\<close>.\<close>

definition calculateConfidence :: "SearchSource list \<Rightarrow> number" where
  "calculateConfidence srcs =
     (if length srcs = 0 then 0
      else let avgScore =
                 divide64 (foldl (\<lambda>sum src. plus64 sum (SearchSource.score src)) 0 srcs)
                   (real (length srcs))
           in min avgScore 1.0)"

text \<open>The two statements of \<^verbatim>\<open>query\<close> after the search (lines 171-178): keep the results
  with \<^verbatim>\<open>result.score >= minScore\<close>, then reshape each to a \<^verbatim>\<open>SearchSource\<close>.\<close>

definition filteredResults :: "number \<Rightarrow> VectorSearchResult list \<Rightarrow> VectorSearchResult list" where
  "filteredResults minScore' searchResults =
     List.filter (\<lambda>result. VectorSearchResult.score result \<ge> minScore') searchResults"

definition toSearchSource :: "VectorSearchResult \<Rightarrow> SearchSource" where
  "toSearchSource result =
     \<lparr>SearchSource.content = VectorDocument.content (document result),
      SearchSource.metadata = VectorDocument.metadata (document result),
      SearchSource.score = VectorSearchResult.score result\<rparr>"

definition filteredSources :: "number \<Rightarrow> VectorSearchResult list \<Rightarrow> SearchSource list" where
  "filteredSources minScore' searchResults =
     map toSearchSource (filteredResults minScore' searchResults)"

subsection \<open>The literals of the engine\<close>

definition NO_CONTEXT :: string where \<comment> \<open>"no related information was found."\<close>
  "NO_CONTEXT =
     [CHR 0xE9, CHR 0x96, CHR 0xA2, CHR 0xE9, CHR 0x80, CHR 0xA3, CHR 0xE3, CHR 0x81, CHR 0x99,
     CHR 0xE3, CHR 0x82, CHR 0x8B, CHR 0xE6, CHR 0x83, CHR 0x85, CHR 0xE5, CHR 0xA0,
     CHR 0xB1, CHR 0xE3, CHR 0x81, CHR 0x8C, CHR 0xE8, CHR 0xA6, CHR 0x8B, CHR 0xE3,
     CHR 0x81, CHR 0xA4, CHR 0xE3, CHR 0x81, CHR 0x8B, CHR 0xE3, CHR 0x82, CHR 0x8A,
     CHR 0xE3, CHR 0x81, CHR 0xBE, CHR 0xE3, CHR 0x81, CHR 0x9B, CHR 0xE3, CHR 0x82,
     CHR 0x93, CHR 0xE3, CHR 0x81, CHR 0xA7, CHR 0xE3, CHR 0x81, CHR 0x97, CHR 0xE3,
     CHR 0x81, CHR 0x9F, CHR 0xE3, CHR 0x80, CHR 0x82]"

definition CTX_OPEN :: string where \<comment> \<open>"[context "\<close>
  "CTX_OPEN =
     [CHR 0xE3, CHR 0x80, CHR 0x90, CHR 0xE3, CHR 0x82, CHR 0xB3, CHR 0xE3, CHR 0x83, CHR 0xB3,
     CHR 0xE3, CHR 0x83, CHR 0x86, CHR 0xE3, CHR 0x82, CHR 0xAD, CHR 0xE3, CHR 0x82,
     CHR 0xB9, CHR 0xE3, CHR 0x83, CHR 0x88] @ '' ''"

definition CTX_MID :: string where \<comment> \<open>"] (relevance: "\<close>
  "CTX_MID =
     [CHR 0xE3, CHR 0x80, CHR 0x91, CHR 0xEF, CHR 0xBC, CHR 0x88, CHR 0xE9, CHR 0x96, CHR 0xA2,
     CHR 0xE9, CHR 0x80, CHR 0xA3, CHR 0xE5, CHR 0xBA, CHR 0xA6] @ '': ''"

definition CTX_CLOSE :: string where \<comment> \<open>"%)"\<close>
  "CTX_CLOSE =
     ''%'' @ [CHR 0xEF, CHR 0xBC, CHR 0x89]"

definition NO_ANSWER :: string where \<comment> \<open>"could not generate an answer."\<close>
  "NO_ANSWER =
     [CHR 0xE5, CHR 0x9B, CHR 0x9E, CHR 0xE7, CHR 0xAD, CHR 0x94, CHR 0xE3, CHR 0x82, CHR 0x92,
     CHR 0xE7, CHR 0x94, CHR 0x9F, CHR 0xE6, CHR 0x88, CHR 0x90, CHR 0xE3, CHR 0x81,
     CHR 0xA7, CHR 0xE3, CHR 0x81, CHR 0x8D, CHR 0xE3, CHR 0x81, CHR 0xBE, CHR 0xE3,
     CHR 0x81, CHR 0x9B, CHR 0xE3, CHR 0x82, CHR 0x93, CHR 0xE3, CHR 0x81, CHR 0xA7,
     CHR 0xE3, CHR 0x81, CHR 0x97, CHR 0xE3, CHR 0x81, CHR 0x9F, CHR 0xE3, CHR 0x80,
     CHR 0x82]"

definition PROMPT_HEAD :: string where \<comment> \<open>"answer the question of the user with the context information below."\<close>
  "PROMPT_HEAD =
     [CHR 0xE4, CHR 0xBB, CHR 0xA5, CHR 0xE4, CHR 0xB8, CHR 0x8B, CHR 0xE3, CHR 0x81, CHR 0xAE,
     CHR 0xE3, CHR 0x82, CHR 0xB3, CHR 0xE3, CHR 0x83, CHR 0xB3, CHR 0xE3, CHR 0x83,
     CHR 0x86, CHR 0xE3, CHR 0x82, CHR 0xAD, CHR 0xE3, CHR 0x82, CHR 0xB9, CHR 0xE3,
     CHR 0x83, CHR 0x88, CHR 0xE6, CHR 0x83, CHR 0x85, CHR 0xE5, CHR 0xA0, CHR 0xB1,
     CHR 0xE3, CHR 0x82, CHR 0x92, CHR 0xE5, CHR 0x8F, CHR 0x82, CHR 0xE8, CHR 0x80,
     CHR 0x83, CHR 0xE3, CHR 0x81, CHR 0xAB, CHR 0xE3, CHR 0x80, CHR 0x81, CHR 0xE3,
     CHR 0x83, CHR 0xA6, CHR 0xE3, CHR 0x83, CHR 0xBC, CHR 0xE3, CHR 0x82, CHR 0xB6,
     CHR 0xE3, CHR 0x83, CHR 0xBC, CHR 0xE3, CHR 0x81, CHR 0xAE, CHR 0xE8, CHR 0xB3,
     CHR 0xAA, CHR 0xE5, CHR 0x95, CHR 0x8F, CHR 0xE3, CHR 0x81, CHR 0xAB, CHR 0xE7,
     CHR 0xAD, CHR 0x94, CHR 0xE3, CHR 0x81, CHR 0x88, CHR 0xE3, CHR 0x81, CHR 0xA6,
     CHR 0xE3, CHR 0x81, CHR 0x8F, CHR 0xE3, CHR 0x81, CHR 0xA0, CHR 0xE3, CHR 0x81,
     CHR 0x95, CHR 0xE3, CHR 0x81, CHR 0x84, CHR 0xE3, CHR 0x80, CHR 0x82]"

definition PROMPT_QUESTION :: string where \<comment> \<open>"[question of the user]"\<close>
  "PROMPT_QUESTION =
     [CHR 0xE3, CHR 0x80, CHR 0x90, CHR 0xE3, CHR 0x83, CHR 0xA6, CHR 0xE3, CHR 0x83, CHR 0xBC,
     CHR 0xE3, CHR 0x82, CHR 0xB6, CHR 0xE3, CHR 0x83, CHR 0xBC, CHR 0xE3, CHR 0x81,
     CHR 0xAE, CHR 0xE8, CHR 0xB3, CHR 0xAA, CHR 0xE5, CHR 0x95, CHR 0x8F, CHR 0xE3,
     CHR 0x80, CHR 0x91]"

definition PROMPT_ANSWER :: string where \<comment> \<open>"[answer]"\<close>
  "PROMPT_ANSWER =
     [CHR 0xE3, CHR 0x80, CHR 0x90, CHR 0xE5, CHR 0x9B, CHR 0x9E, CHR 0xE7, CHR 0xAD, CHR 0x94,
     CHR 0xE3, CHR 0x80, CHR 0x91]"

definition SYSTEM_PROMPT_lines :: "string list" where
  "SYSTEM_PROMPT_lines =
     [[CHR 0xE3, CHR 0x81, CHR 0x82, CHR 0xE3, CHR 0x81, CHR 0xAA, CHR 0xE3, CHR 0x81, CHR 0x9F,
       CHR 0xE3, CHR 0x81, CHR 0xAF, CHR 0xE6, CHR 0x9D, CHR 0xBF, CHR 0xE9, CHR 0x87,
       CHR 0x91, CHR 0xE5, CHR 0xA1, CHR 0x97, CHR 0xE8, CHR 0xA3, CHR 0x85, CHR 0xE6,
       CHR 0xA5, CHR 0xAD, CHR 0xE7, CHR 0x95, CHR 0x8C, CHR 0xE3, CHR 0x81, CHR 0xAE] @
       ''CRM'' @ [CHR 0xE3, CHR 0x83, CHR 0x87, CHR 0xE3, CHR 0x83, CHR 0xBC, CHR 0xE3,
       CHR 0x82, CHR 0xBF, CHR 0xE3, CHR 0x82, CHR 0x92, CHR 0xE5, CHR 0x88, CHR 0x86,
       CHR 0xE6, CHR 0x9E, CHR 0x90, CHR 0xE3, CHR 0x81, CHR 0x99, CHR 0xE3, CHR 0x82,
       CHR 0x8B, CHR 0xE5, CHR 0xB0, CHR 0x82, CHR 0xE9, CHR 0x96, CHR 0x80, CHR 0xE3,
       CHR 0x82, CHR 0xA2, CHR 0xE3, CHR 0x82, CHR 0xB7, CHR 0xE3, CHR 0x82, CHR 0xB9,
       CHR 0xE3, CHR 0x82, CHR 0xBF, CHR 0xE3, CHR 0x83, CHR 0xB3, CHR 0xE3, CHR 0x83,
       CHR 0x88, CHR 0xE3, CHR 0x81, CHR 0xA7, CHR 0xE3, CHR 0x81, CHR 0x99, CHR 0xE3,
       CHR 0x80, CHR 0x82],
      [],
      [CHR 0xE4, CHR 0xBB, CHR 0xA5, CHR 0xE4, CHR 0xB8, CHR 0x8B, CHR 0xE3, CHR 0x81, CHR 0xAE,
       CHR 0xE7, CHR 0x82, CHR 0xB9, CHR 0xE3, CHR 0x81, CHR 0xAB, CHR 0xE6, CHR 0xB3,
       CHR 0xA8, CHR 0xE6, CHR 0x84, CHR 0x8F, CHR 0xE3, CHR 0x81, CHR 0x97, CHR 0xE3,
       CHR 0x81, CHR 0xA6, CHR 0xE5, CHR 0x9B, CHR 0x9E, CHR 0xE7, CHR 0xAD, CHR 0x94,
       CHR 0xE3, CHR 0x81, CHR 0x97, CHR 0xE3, CHR 0x81, CHR 0xA6, CHR 0xE3, CHR 0x81,
       CHR 0x8F, CHR 0xE3, CHR 0x81, CHR 0xA0, CHR 0xE3, CHR 0x81, CHR 0x95, CHR 0xE3,
       CHR 0x81, CHR 0x84, CHR 0xEF, CHR 0xBC, CHR 0x9A],
      ''1. '' @ [CHR 0xE9, CHR 0xA1, CHR 0xA7, CHR 0xE5, CHR 0xAE, CHR 0xA2, CHR 0xE6, CHR 0x83,
       CHR 0x85, CHR 0xE5, CHR 0xA0, CHR 0xB1, CHR 0xE3, CHR 0x80, CHR 0x81, CHR 0xE8,
       CHR 0xA6, CHR 0x8B, CHR 0xE7, CHR 0xA9, CHR 0x8D, CHR 0xE6, CHR 0x83, CHR 0x85,
       CHR 0xE5, CHR 0xA0, CHR 0xB1, CHR 0xE3, CHR 0x80, CHR 0x81, CHR 0xE4, CHR 0xBD,
       CHR 0x9C, CHR 0xE6, CHR 0xA5, CHR 0xAD, CHR 0xE5, CHR 0xB1, CHR 0xA5, CHR 0xE6,
       CHR 0xAD, CHR 0xB4, CHR 0xE3, CHR 0x81, CHR 0xAA, CHR 0xE3, CHR 0x81, CHR 0xA9,
       CHR 0xE3, CHR 0x81, CHR 0xAE] @ ''CRM'' @ [CHR 0xE3, CHR 0x83, CHR 0x87, CHR 0xE3,
       CHR 0x83, CHR 0xBC, CHR 0xE3, CHR 0x82, CHR 0xBF, CHR 0xE3, CHR 0x82, CHR 0x92,
       CHR 0xE6, CHR 0xAD, CHR 0xA3, CHR 0xE7, CHR 0xA2, CHR 0xBA, CHR 0xE3, CHR 0x81,
       CHR 0xAB, CHR 0xE8, CHR 0xA7, CHR 0xA3, CHR 0xE9, CHR 0x87, CHR 0x88, CHR 0xE3,
       CHR 0x81, CHR 0x99, CHR 0xE3, CHR 0x82, CHR 0x8B],
      ''2. '' @ [CHR 0xE6, CHR 0x9D, CHR 0xBF, CHR 0xE9, CHR 0x87, CHR 0x91, CHR 0xE5, CHR 0xA1,
       CHR 0x97, CHR 0xE8, CHR 0xA3, CHR 0x85, CHR 0xE6, CHR 0xA5, CHR 0xAD, CHR 0xE7,
       CHR 0x95, CHR 0x8C, CHR 0xE3, CHR 0x81, CHR 0xAE, CHR 0xE5, CHR 0xB0, CHR 0x82,
       CHR 0xE9, CHR 0x96, CHR 0x80, CHR 0xE7, CHR 0x94, CHR 0xA8, CHR 0xE8, CHR 0xAA,
       CHR 0x9E, CHR 0xEF, CHR 0xBC, CHR 0x88, CHR 0xE3, CHR 0x81, CHR 0xB8, CHR 0xE3,
       CHR 0x81, CHR 0x93, CHR 0xE3, CHR 0x81, CHR 0xBF, CHR 0xE4, CHR 0xBF, CHR 0xAE,
       CHR 0xE7, CHR 0x90, CHR 0x86, CHR 0xE3, CHR 0x80, CHR 0x81, CHR 0xE5, CHR 0xA1,
       CHR 0x97, CHR 0xE8, CHR 0xA3, CHR 0x85, CHR 0xE3, CHR 0x80, CHR 0x81, CHR 0xE3,
       CHR 0x82, CHR 0xB3, CHR 0xE3, CHR 0x83, CHR 0xBC, CHR 0xE3, CHR 0x83, CHR 0x86,
       CHR 0xE3, CHR 0x82, CHR 0xA3, CHR 0xE3, CHR 0x83, CHR 0xB3, CHR 0xE3, CHR 0x82,
       CHR 0xB0, CHR 0xE3, CHR 0x80, CHR 0x81, CHR 0xE3, CHR 0x83, CHR 0x90, CHR 0xE3,
       CHR 0x83, CHR 0xB3, CHR 0xE3, CHR 0x83, CHR 0x91, CHR 0xE3, CHR 0x83, CHR 0xBC,
       CHR 0xE4, CHR 0xBA, CHR 0xA4, CHR 0xE6, CHR 0x8F, CHR 0x9B, CHR 0xE3, CHR 0x81,
       CHR 0xAA, CHR 0xE3, CHR 0x81, CHR 0xA9, CHR 0xEF, CHR 0xBC, CHR 0x89, CHR 0xE3,
       CHR 0x82, CHR 0x92, CHR 0xE9, CHR 0x81, CHR 0xA9, CHR 0xE5, CHR 0x88, CHR 0x87,
       CHR 0xE3, CHR 0x81, CHR 0xAB, CHR 0xE4, CHR 0xBD, CHR 0xBF, CHR 0xE7, CHR 0x94,
       CHR 0xA8, CHR 0xE3, CHR 0x81, CHR 0x99, CHR 0xE3, CHR 0x82, CHR 0x8B],
      ''3. '' @ [CHR 0xE6, CHR 0x8F, CHR 0x90, CHR 0xE4, CHR 0xBE, CHR 0x9B, CHR 0xE3, CHR 0x81,
       CHR 0x95, CHR 0xE3, CHR 0x82, CHR 0x8C, CHR 0xE3, CHR 0x81, CHR 0x9F, CHR 0xE3,
       CHR 0x82, CHR 0xB3, CHR 0xE3, CHR 0x83, CHR 0xB3, CHR 0xE3, CHR 0x83, CHR 0x86,
       CHR 0xE3, CHR 0x82, CHR 0xAD, CHR 0xE3, CHR 0x82, CHR 0xB9, CHR 0xE3, CHR 0x83,
       CHR 0x88, CHR 0xE6, CHR 0x83, CHR 0x85, CHR 0xE5, CHR 0xA0, CHR 0xB1, CHR 0xE3,
       CHR 0x81, CHR 0xAB, CHR 0xE5, CHR 0x9F, CHR 0xBA, CHR 0xE3, CHR 0x81, CHR 0xA5,
       CHR 0xE3, CHR 0x81, CHR 0x84, CHR 0xE3, CHR 0x81, CHR 0xA6, CHR 0xE3, CHR 0x80,
       CHR 0x81, CHR 0xE5, CHR 0x85, CHR 0xB7, CHR 0xE4, CHR 0xBD, CHR 0x93, CHR 0xE7,
       CHR 0x9A, CHR 0x84, CHR 0xE3, CHR 0x81, CHR 0xA7, CHR 0xE6, CHR 0xAD, CHR 0xA3,
       CHR 0xE7, CHR 0xA2, CHR 0xBA, CHR 0xE3, CHR 0x81, CHR 0xAA, CHR 0xE5, CHR 0x9B,
       CHR 0x9E, CHR 0xE7, CHR 0xAD, CHR 0x94, CHR 0xE3, CHR 0x82, CHR 0x92, CHR 0xE7,
       CHR 0x94, CHR 0x9F, CHR 0xE6, CHR 0x88, CHR 0x90, CHR 0xE3, CHR 0x81, CHR 0x99,
       CHR 0xE3, CHR 0x82, CHR 0x8B],
      ''4. '' @ [CHR 0xE4, CHR 0xB8, CHR 0x8D, CHR 0xE6, CHR 0x98, CHR 0x8E, CHR 0xE3, CHR 0x81,
       CHR 0xAA, CHR 0xE7, CHR 0x82, CHR 0xB9, CHR 0xE3, CHR 0x82, CHR 0x84, CHR 0xE6,
       CHR 0x83, CHR 0x85, CHR 0xE5, CHR 0xA0, CHR 0xB1, CHR 0xE3, CHR 0x81, CHR 0x8C,
       CHR 0xE4, CHR 0xB8, CHR 0x8D, CHR 0xE8, CHR 0xB6, CHR 0xB3, CHR 0xE3, CHR 0x81,
       CHR 0x97, CHR 0xE3, CHR 0x81, CHR 0xA6, CHR 0xE3, CHR 0x81, CHR 0x84, CHR 0xE3,
       CHR 0x82, CHR 0x8B, CHR 0xE5, CHR 0xA0, CHR 0xB4, CHR 0xE5, CHR 0x90, CHR 0x88,
       CHR 0xE3, CHR 0x81, CHR 0xAF, CHR 0xE3, CHR 0x80, CHR 0x81, CHR 0xE3, CHR 0x81,
       CHR 0x9D, CHR 0xE3, CHR 0x81, CHR 0xAE, CHR 0xE6, CHR 0x97, CHR 0xA8, CHR 0xE3,
       CHR 0x82, CHR 0x92, CHR 0xE6, CHR 0x98, CHR 0x8E, CHR 0xE7, CHR 0xA2, CHR 0xBA,
       CHR 0xE3, CHR 0x81, CHR 0xAB, CHR 0xE4, CHR 0xBC, CHR 0x9D, CHR 0xE3, CHR 0x81,
       CHR 0x88, CHR 0xE3, CHR 0x82, CHR 0x8B],
      ''5. '' @ [CHR 0xE9, CHR 0x87, CHR 0x91, CHR 0xE9, CHR 0xA1, CHR 0x8D, CHR 0xE3, CHR 0x82,
       CHR 0x84, CHR 0xE6, CHR 0x97, CHR 0xA5, CHR 0xE4, CHR 0xBB, CHR 0x98, CHR 0xE3,
       CHR 0x81, CHR 0xAA, CHR 0xE3, CHR 0x81, CHR 0xA9, CHR 0xE3, CHR 0x81, CHR 0xAE,
       CHR 0xE6, CHR 0x95, CHR 0xB0, CHR 0xE5, CHR 0x80, CHR 0xA4, CHR 0xE6, CHR 0x83,
       CHR 0x85, CHR 0xE5, CHR 0xA0, CHR 0xB1, CHR 0xE3, CHR 0x81, CHR 0xAF, CHR 0xE6,
       CHR 0xAD, CHR 0xA3, CHR 0xE7, CHR 0xA2, CHR 0xBA, CHR 0xE3, CHR 0x81, CHR 0xAB,
       CHR 0xE4, CHR 0xBC, CHR 0x9D, CHR 0xE3, CHR 0x81, CHR 0x88, CHR 0xE3, CHR 0x82,
       CHR 0x8B],
      ''6. '' @ [CHR 0xE9, CHR 0xA1, CHR 0xA7, CHR 0xE5, CHR 0xAE, CHR 0xA2, CHR 0xE3, CHR 0x81,
       CHR 0xAB, CHR 0xE5, CHR 0xAF, CHR 0xBE, CHR 0xE3, CHR 0x81, CHR 0x97, CHR 0xE3,
       CHR 0x81, CHR 0xA6, CHR 0xE4, CHR 0xB8, CHR 0x81, CHR 0xE5, CHR 0xAF, CHR 0xA7,
       CHR 0xE3, CHR 0x81, CHR 0xA7, CHR 0xE5, CHR 0x88, CHR 0x86, CHR 0xE3, CHR 0x81,
       CHR 0x8B, CHR 0xE3, CHR 0x82, CHR 0x8A, CHR 0xE3, CHR 0x82, CHR 0x84, CHR 0xE3,
       CHR 0x81, CHR 0x99, CHR 0xE3, CHR 0x81, CHR 0x84, CHR 0xE8, CHR 0xA8, CHR 0x80,
       CHR 0xE8, CHR 0x91, CHR 0x89, CHR 0xE3, CHR 0x82, CHR 0x92, CHR 0xE4, CHR 0xBD,
       CHR 0xBF, CHR 0xE3, CHR 0x81, CHR 0x86],
      [],
      [CHR 0xE5, CHR 0x9B, CHR 0x9E, CHR 0xE7, CHR 0xAD, CHR 0x94, CHR 0xE3, CHR 0x81, CHR 0xAF,
       CHR 0xE7, CHR 0xB0, CHR 0xA1, CHR 0xE6, CHR 0xBD, CHR 0x94, CHR 0xE3, CHR 0x81,
       CHR 0xA7, CHR 0xE3, CHR 0x80, CHR 0x81, CHR 0xE8, CHR 0xA6, CHR 0x81, CHR 0xE7,
       CHR 0x82, CHR 0xB9, CHR 0xE3, CHR 0x82, CHR 0x92, CHR 0xE6, CHR 0x8A, CHR 0xBC,
       CHR 0xE3, CHR 0x81, CHR 0x95, CHR 0xE3, CHR 0x81, CHR 0x88, CHR 0xE3, CHR 0x81,
       CHR 0x9F, CHR 0xE3, CHR 0x82, CHR 0x82, CHR 0xE3, CHR 0x81, CHR 0xAE, CHR 0xE3,
       CHR 0x81, CHR 0xAB, CHR 0xE3, CHR 0x81, CHR 0x97, CHR 0xE3, CHR 0x81, CHR 0xA6,
       CHR 0xE3, CHR 0x81, CHR 0x8F, CHR 0xE3, CHR 0x81, CHR 0xA0, CHR 0xE3, CHR 0x81,
       CHR 0x95, CHR 0xE3, CHR 0x81, CHR 0x84, CHR 0xE3, CHR 0x80, CHR 0x82]]"

definition SYSTEM_PROMPT :: string where
  "SYSTEM_PROMPT = join NL SYSTEM_PROMPT_lines"

text \<open>\<^verbatim>\<open>buildContext\<close> (lines 133-143).\<close>

definition buildContext :: "js_runtime \<Rightarrow> SearchSource list \<Rightarrow> string" where
  "buildContext rt srcs =
     (if length srcs = 0 then NO_CONTEXT
      else
        (let contextParts =
               map (\<lambda>(index, src).
                      CTX_OPEN @ numberToString rt (real index + 1) @ CTX_MID @
                      toFixed rt (times64 (SearchSource.score src) 100) 1 @ CTX_CLOSE @ NL @
                      SearchSource.content src)
                   (zip [0 ..< length srcs] srcs)
         in join (NL @ NL) contextParts))"

text \<open>The user prompt of lines 184-191.\<close>

definition userPrompt :: "string \<Rightarrow> string \<Rightarrow> string" where
  "userPrompt context query' =
     PROMPT_HEAD @ NL @ NL @ context @ NL @ NL @ PROMPT_QUESTION @ NL @ query' @ NL @ NL @
     PROMPT_ANSWER"

text \<open>The argument of \<^verbatim>\<open>this.anthropic.messages.create\<close> (lines 194-204).\<close>

definition createParams :: "string \<Rightarrow> MessageCreateParams" where
  "createParams prompt =
     \<lparr>model = ''claude-3-5-sonnet-20241022'', max_tokens = 1024, system = SYSTEM_PROMPT,
      messages = [\<lparr>role = user, MessageParam.content = prompt\<rparr>]\<rparr>"

text \<open>Lines 207-208:
  \<^verbatim>\<open>response.content[0].type === 'text' ? response.content[0].text : <fixed message>\<close>. On an
  empty \<^verbatim>\<open>content\<close> the read of \<^verbatim>\<open>.type\<close> on \<^verbatim>\<open>undefined\<close> throws.\<close>

definition extractAnswer :: "Message \<Rightarrow> error + string" where
  "extractAnswer response =
     (case Message.content response of
        [] \<Rightarrow> Inl TypeError
      | TextBlock text # _ \<Rightarrow> Inr text
      | OtherBlock _ # _ \<Rightarrow> Inr NO_ANSWER)"

text \<open>\<^verbatim>\<open>query\<close> (lines 161-222): first the body of its \<^verbatim>\<open>try\<close>, then the method, where
  everything thrown inside \<^verbatim>\<open>try\<close> is replaced by the one error of line 220.\<close>

definition query_body ::
  "('c, 'w) services \<Rightarrow> js_runtime \<Rightarrow> string \<Rightarrow> nat \<Rightarrow> number \<Rightarrow> ('c, 'w) state \<Rightarrow>
   (error + RAGResponse) \<times> ('c, 'w) state" where
  "query_body svc rt query' topK' minScore' st =
     (case getVectorStore svc st of
        (Inl e, st1) \<Rightarrow> (Inl e, st1)
      | (Inr vectorStore, st1) \<Rightarrow>
          (case search svc vectorStore query'
                  \<lparr>VectorSearchOptions.topK = Some topK', filter = None\<rparr> (world st1) of
             (Inl e, w2) \<Rightarrow> (Inl e, st1\<lparr>world := w2\<rparr>)
           | (Inr found, w2) \<Rightarrow>
               (let sources' = filteredSources minScore' found;
                    context = buildContext rt sources';
                    prompt = userPrompt context query'
                in case messages_create svc (createParams prompt) w2 of
                     (Inl e, w3) \<Rightarrow> (Inl e, st1\<lparr>world := w3\<rparr>)
                   | (Inr response, w3) \<Rightarrow>
                       (case extractAnswer response of
                          Inl e \<Rightarrow> (Inl e, st1\<lparr>world := w3\<rparr>)
                        | Inr answer' \<Rightarrow>
                            (Inr \<lparr>answer = answer', sources = sources',
                                  confidence = calculateConfidence sources'\<rparr>,
                             st1\<lparr>world := w3\<rparr>)))))"

text \<open>The destructuring of line 163: \<^verbatim>\<open>const { topK = 5, minScore = 0.5 } = options || {}\<close>.\<close>

definition effectiveTopK :: "RAGQuery \<Rightarrow> nat" where
  "effectiveTopK queryRequest =
     (case options queryRequest of
        None \<Rightarrow> 5
      | Some opts \<Rightarrow> (case RAGOptions.topK opts of Some k \<Rightarrow> k | None \<Rightarrow> 5))"

definition effectiveMinScore :: "RAGQuery \<Rightarrow> number" where
  "effectiveMinScore queryRequest =
     (case options queryRequest of
        None \<Rightarrow> 0.5
      | Some opts \<Rightarrow> (case minScore opts of Some m \<Rightarrow> m | None \<Rightarrow> 0.5))"

definition query ::
  "('c, 'w) services \<Rightarrow> js_runtime \<Rightarrow> RAGQuery \<Rightarrow> ('c, 'w) state \<Rightarrow>
   (error + RAGResponse) \<times> ('c, 'w) state" where
  "query svc rt queryRequest st =
     (case query_body svc rt (RAGQuery.query queryRequest) (effectiveTopK queryRequest)
             (effectiveMinScore queryRequest) st of
        (Inl _, st') \<Rightarrow> (Inl RAGQueryFailed, st')
      | (Inr response, st') \<Rightarrow> (Inr response, st'))"

section \<open>Ingestion service (\<^verbatim>\<open>services/dataIngestion.ts\<close>)\<close>

text \<open>The key of a document (line 378 of the listing):
  \<^verbatim>\<open>item.customerId || item.quoteId || item.workId || index\<close>, inside a template literal.\<close>

definition naturalKey :: "js_runtime \<Rightarrow> CRMData \<Rightarrow> nat \<Rightarrow> string" where
  "naturalKey rt item index =
     (case item of
        CustomerData c \<Rightarrow>
          (if Customer.customerId c \<noteq> [] then Customer.customerId c
           else numberToString rt (real index))
      | QuoteData q \<Rightarrow>
          (if Quote.customerId q \<noteq> [] then Quote.customerId q
           else if quoteId q \<noteq> [] then quoteId q
           else numberToString rt (real index))
      | WorkHistoryData h \<Rightarrow>
          (if WorkHistory.customerId h \<noteq> [] then WorkHistory.customerId h
           else if workId h \<noteq> [] then workId h
           else numberToString rt (real index)))"

text \<open>The callback of \<^verbatim>\<open>data.map\<close> (lines 375-385); \<^verbatim>\<open>convertToText\<close> may throw.\<close>

definition toDocument :: "js_runtime \<Rightarrow> string \<Rightarrow> CRMData \<Rightarrow> nat \<Rightarrow> error + VectorDocument" where
  "toDocument rt dataType' item index =
     (case convertToText rt item dataType' of
        Inl e \<Rightarrow> Inl e
      | Inr content' \<Rightarrow>
          Inr \<lparr>VectorDocument.id = dataType' @ ''_'' @ naturalKey rt item index,
               VectorDocument.content = content',
               VectorDocument.metadata = TypedItem dataType' item,
               embedding = None\<rparr>)"

fun toDocuments ::
  "js_runtime \<Rightarrow> string \<Rightarrow> CRMData list \<Rightarrow> nat \<Rightarrow> error + VectorDocument list" where
  "toDocuments rt dataType' [] index = Inr []"
| "toDocuments rt dataType' (item # rest) index =
     (case toDocument rt dataType' item index of
        Inl e \<Rightarrow> Inl e
      | Inr doc \<Rightarrow>
          (case toDocuments rt dataType' rest (Suc index) of
             Inl e \<Rightarrow> Inl e
           | Inr docs \<Rightarrow> Inr (doc # docs)))"

text \<open>\<^verbatim>\<open>ingestFromSource\<close> (lines 357-398 of the listing): load, return 0 on no data, convert,
  add to the store, return the number of documents; everything thrown inside \<^verbatim>\<open>try\<close> is
  replaced by the one error of line 396.\<close>

definition ingestFromSource_body ::
  "('c, 'w) services \<Rightarrow> js_runtime \<Rightarrow> DataIngestionRequest \<Rightarrow> ('c, 'w) state \<Rightarrow>
   (error + nat) \<times> ('c, 'w) state" where
  "ingestFromSource_body svc rt request st =
     (case loadData svc (source request) (world st) of
        (Inl e, w1) \<Rightarrow> (Inl e, st\<lparr>world := w1\<rparr>)
      | (Inr data, w1) \<Rightarrow>
          if length data = 0 then (Inr 0, st\<lparr>world := w1\<rparr>)
          else
            (case toDocuments rt (dataType request) data 0 of
               Inl e \<Rightarrow> (Inl e, st\<lparr>world := w1\<rparr>)
             | Inr docs \<Rightarrow>
                 (case getVectorStore svc (st\<lparr>world := w1\<rparr>) of
                    (Inl e, st2) \<Rightarrow> (Inl e, st2)
                  | (Inr vectorStore, st2) \<Rightarrow>
                      (case addDocuments svc vectorStore docs (world st2) of
                         (Inl e, w3) \<Rightarrow> (Inl e, st2\<lparr>world := w3\<rparr>)
                       | (Inr _, w3) \<Rightarrow> (Inr (length docs), st2\<lparr>world := w3\<rparr>)))))"

definition ingestFromSource ::
  "('c, 'w) services \<Rightarrow> js_runtime \<Rightarrow> DataIngestionRequest \<Rightarrow> ('c, 'w) state \<Rightarrow>
   (error + nat) \<times> ('c, 'w) state" where
  "ingestFromSource svc rt request st =
     (case ingestFromSource_body svc rt request st of
        (Inl _, st') \<Rightarrow> (Inl IngestFailed, st')
      | (Inr count, st') \<Rightarrow> (Inr count, st'))"

text \<open>The result of \<^verbatim>\<open>ingestBulk\<close>: \<^verbatim>\<open>{ total, byType }\<close>.\<close>

record BulkResult =
  total :: nat
  byType :: "string \<rightharpoonup> nat"

text \<open>The loop of \<^verbatim>\<open>ingestBulk\<close> (lines 410-418 of the listing) on the two accumulators: a count
  is added to its type and to the total; in \<^verbatim>\<open>catch\<close> the error is logged and the loop goes
  on. The loop ends in the \<^verbatim>\<open>return\<close> of line 420.\<close>

fun ingestBulk_loop ::
  "('c, 'w) services \<Rightarrow> js_runtime \<Rightarrow> DataIngestionRequest list \<Rightarrow> BulkResult \<Rightarrow> ('c, 'w) state \<Rightarrow>
   (error + BulkResult) \<times> ('c, 'w) state" where
  "ingestBulk_loop svc rt [] acc st = (Inr acc, st)"
| "ingestBulk_loop svc rt (request # rest) acc st =
     (case ingestFromSource svc rt request st of
        (Inr count, st') \<Rightarrow>
          ingestBulk_loop svc rt rest
            \<lparr>total = total acc + count,
             byType = (byType acc)(dataType request \<mapsto>
                         (case byType acc (dataType request) of Some n \<Rightarrow> n | None \<Rightarrow> 0) + count)\<rparr>
            st'
      | (Inl _, st') \<Rightarrow> ingestBulk_loop svc rt rest acc st')"

text \<open>\<^verbatim>\<open>ingestBulk\<close> (lines 403-421 of the listing): the loop from \<^verbatim>\<open>total = 0\<close> and
  \<^verbatim>\<open>byType = {}\<close>, then \<^verbatim>\<open>return { total, byType }\<close>.\<close>

definition ingestBulk ::
  "('c, 'w) services \<Rightarrow> js_runtime \<Rightarrow> DataIngestionRequest list \<Rightarrow> ('c, 'w) state \<Rightarrow>
   (error + BulkResult) \<times> ('c, 'w) state" where
  "ingestBulk svc rt requests st =
     ingestBulk_loop svc rt requests \<lparr>total = 0, byType = Map.empty\<rparr> st"

section \<open>Observations used in the statements\<close>

text \<open>What the awaited calls of \<^verbatim>\<open>ingestFromSource\<close> return when the sources are taken in turn,
  each from the state that the one before it left.\<close>

fun ingestOutcomes ::
  "('c, 'w) services \<Rightarrow> js_runtime \<Rightarrow> DataIngestionRequest list \<Rightarrow> ('c, 'w) state \<Rightarrow>
   (error + nat) list" where
  "ingestOutcomes svc rt [] st = []"
| "ingestOutcomes svc rt (request # rest) st =
     (case ingestFromSource svc rt request st of
        (r, st') \<Rightarrow> r # ingestOutcomes svc rt rest st')"

text \<open>What the index returned for the neighbours of its first row, in the order of the index:
  their keys and their raw distances.\<close>

definition indexIds :: "QueryResponse \<Rightarrow> string list" where
  "indexIds resp = (case nth_opt (ids resp) 0 of None \<Rightarrow> [] | Some ids0 \<Rightarrow> ids0)"

definition indexDistances :: "QueryResponse \<Rightarrow> number option list" where
  "indexDistances resp = map (at0 (distances resp)) [0 ..< length (indexIds resp)]"

text \<open>The count that a source contributes: its own when it succeeded, nothing when it threw.\<close>

fun countOf :: "error + nat \<Rightarrow> nat" where
  "countOf (Inr n) = n"
| "countOf (Inl _) = 0"

text \<open>The first text block of a response, in the words of the specification: the first block
  of \<^verbatim>\<open>content\<close> whose type is \<^verbatim>\<open>text\<close>, wherever it stands.\<close>

fun spec_firstTextBlock :: "ContentBlock list \<Rightarrow> string option" where
  "spec_firstTextBlock [] = None"
| "spec_firstTextBlock (TextBlock text # _) = Some text"
| "spec_firstTextBlock (OtherBlock _ # rest) = spec_firstTextBlock rest"

section \<open>Sample inputs\<close>

text \<open>The customer of the end-to-end scenario of the specification, with no optional field, and
  two more whose optional fields are set.\<close>

definition sample_customer :: Customer where
  "sample_customer =
     \<lparr>Customer.customerId = ''C1'', name = ''Tanaka'', phone = ''090-0000-0000'',
      email = None, address = None, totalSales = 500000, visitCount = 3,
      registeredAt = None, Customer.notes = None\<rparr>"

definition sample_customer2 :: Customer where
  "sample_customer2 =
     \<lparr>Customer.customerId = ''C2'', name = ''Suzuki'', phone = ''090-1111-1111'',
      email = Some ''suzuki@example.com'', address = Some ''Nagoya'', totalSales = 120000,
      visitCount = 1, registeredAt = Some ''2024-01-15'', Customer.notes = Some ''VIP''\<rparr>"

text \<open>A quote and a work history with no optional field.\<close>

definition sample_quote :: Quote where
  "sample_quote =
     \<lparr>quoteId = ''Q1'', Quote.customerId = ''C1'', Quote.vehicleInfo = ''Prius'',
      items = [\<lparr>itemId = ''I1'', QuoteItem.description = ''bumper'', QuoteItem.quantity = 1,
                QuoteItem.unitPrice = 120000, totalPrice = 120000\<rparr>],
      totalAmount = 120000, status = draft, quoteDate = ''2024-02-01'', validUntil = None,
      Quote.notes = None\<rparr>"

definition sample_work :: WorkHistory where
  "sample_work =
     \<lparr>workId = ''W1'', WorkHistory.customerId = ''C1'', WorkHistory.vehicleInfo = ''Prius'',
      workType = paint, WorkHistory.description = ''door'', technician = ''Sato'',
      workDate = ''2024-03-01'', partsUsed = None, laborCost = 120000, partsCost = 0,
      totalCost = 120000, rating = None, WorkHistory.notes = None\<rparr>"

text \<open>A runtime that prints the few numbers of the samples.\<close>

definition sample_runtime :: js_runtime where
  "sample_runtime =
     \<lparr>numberToString = (\<lambda>n. if n = 0 then ''0'' else if n = 1 then ''1'' else if n = 2 then ''2''
                              else if n = 3 then ''3'' else ''N''),
      toLocaleString = (\<lambda>n. if n = 500000 then ''500,000'' else if n = 120000 then ''120,000''
                              else if n = 0 then ''0'' else ''N''),
      toFixed = (\<lambda>n digits. if n = 100 then ''100.0'' else if n = 50 then ''50.0''
                               else if n = 25 then ''25.0'' else ''N''),
      JSON_stringify = (\<lambda>data indent. ''{}'')\<rparr>"

text \<open>An outside world that is the list of the document keys held by the collection. The file
  \<^verbatim>\<open>a.json\<close> holds two customers and \<^verbatim>\<open>c.json\<close> one; the index answers every query with
  \<open>resp\<close> and the generation service with \<open>msg\<close>.\<close>

definition sample_services :: "QueryResponse \<Rightarrow> Message \<Rightarrow> (string, string list) services" where
  "sample_services resp msg =
     \<lparr>COLLECTION_NAME = ''bankin_crm_data'',
      readJSON = (\<lambda>p w. if p = ''a.json''
                           then (Inr [CustomerData sample_customer, CustomerData sample_customer2], w)
                         else if p = ''c.json'' then (Inr [CustomerData sample_customer], w)
                         else (Inl Upstream, w)),
      readCSV = (\<lambda>p w. (Inl Upstream, w)),
      fetchFromAPI = (\<lambda>url hs w. (Inl Upstream, w)),
      getOrCreateCollection = (\<lambda>n w. (Inr n, w)),
      embeddings_create = (\<lambda>text w. (Inr [0, 1], w)),
      collection_add = (\<lambda>c ids' docs metas embs w. (Inr (), w @ ids')),
      collection_query = (\<lambda>c e k f w. (Inr resp, w)),
      messages_create = (\<lambda>params w. (Inr msg, w))\<rparr>"

text \<open>Three neighbours at distances 0, 1 and 3; a response whose row of distances stops
  before the third neighbour; and two neighbours at distances 0 and \<open>2 ^ -60\<close>.\<close>

definition sample_response :: QueryResponse where
  "sample_response =
     \<lparr>ids = [[''customer_C1'', ''customer_C2'', ''customer_C3'']],
      documents = Some [[Some ''one'', Some ''two'', None]],
      metadatas = None,
      distances = Some [[Some 0, Some 1, Some 3]]\<rparr>"

definition sample_response_short :: QueryResponse where
  "sample_response_short =
     \<lparr>ids = [[''customer_C1'', ''customer_C2'', ''customer_C3'']],
      documents = Some [[Some ''one'', Some ''two'', None]],
      metadatas = None,
      distances = Some [[Some 0, Some 0.25]]\<rparr>"

definition sample_response_close :: QueryResponse where
  "sample_response_close =
     \<lparr>ids = [[''customer_C1'', ''customer_C2'']],
      documents = Some [[Some ''one'', Some ''two'']],
      metadatas = None,
      distances = Some [[Some 0, Some (1 / 2 ^ 60)]]\<rparr>"

definition sample_message :: Message where
  "sample_message = \<lparr>Message.content = [TextBlock ''ok'']\<rparr>"

definition sample_state :: "(string, string list) state" where
  "sample_state = \<lparr>vectorStoreInstance = None, world = []\<rparr>"

definition sample_source :: "number \<Rightarrow> SearchSource" where
  "sample_source s = \<lparr>SearchSource.content = ''doc'', SearchSource.metadata = EmptyObject,
                       SearchSource.score = s\<rparr>"

definition sample_result :: "string \<Rightarrow> number \<Rightarrow> VectorSearchResult" where
  "sample_result key d =
     \<lparr>document = \<lparr>VectorDocument.id = key, VectorDocument.content = ''doc'',
                   VectorDocument.metadata = EmptyObject, embedding = None\<rparr>,
      VectorSearchResult.score = 1 / (1 + d), distance = Some d\<rparr>"

text \<open>A result with a given score and no distance.\<close>

definition sample_scored :: "number \<Rightarrow> VectorSearchResult" where
  "sample_scored s =
     \<lparr>document = \<lparr>VectorDocument.id = ''doc'', VectorDocument.content = ''doc'',
                   VectorDocument.metadata = EmptyObject, embedding = None\<rparr>,
      VectorSearchResult.score = s, distance = None\<rparr>"

text \<open>The binary64 numbers written 0.7 and 0.6999999999999998 in decimal, and a list of five
  results of the first score and one of the second.\<close>

definition sample_07 :: number where
  "sample_07 = 3152519739159347 / 2 ^ 52"

definition sample_07_below :: number where
  "sample_07_below = 6305039478318693 / 2 ^ 53"

definition sample_found6 :: "VectorSearchResult list" where
  "sample_found6 =
     [sample_scored sample_07, sample_scored sample_07, sample_scored sample_07,
      sample_scored sample_07, sample_scored sample_07, sample_scored sample_07_below]"

text \<open>Three sources: a JSON file of two customers, an Excel file, a JSON file of one customer.\<close>

definition sample_requests :: "DataIngestionRequest list" where
  "sample_requests =
     [\<lparr>source = \<lparr>type = json, path = Some ''a.json'', apiEndpoint = None, headers = None\<rparr>,
       dataType = ''customer''\<rparr>,
      \<lparr>source = \<lparr>type = excel, path = Some ''b.xlsx'', apiEndpoint = None, headers = None\<rparr>,
       dataType = ''quote''\<rparr>,
      \<lparr>source = \<lparr>type = json, path = Some ''c.json'', apiEndpoint = None, headers = None\<rparr>,
       dataType = ''customer''\<rparr>]"

section \<open>Properties\<close>

subsection \<open>Binary64 rounding\<close>

lemma rne_of_int [simp]: "rne (of_int n) = n"
  by (simp add: rne_def)

lemma rne_mono: "q \<le> q' \<Longrightarrow> rne q \<le> rne q'"
proof -
  assume le: "q \<le> q'"
  have fl: "\<lfloor>q\<rfloor> \<le> \<lfloor>q'\<rfloor>" using le by (rule floor_mono)
  show ?thesis
  proof (cases "\<lfloor>q\<rfloor> = \<lfloor>q'\<rfloor>")
    case True
    with le show ?thesis by (auto simp: rne_def Let_def)
  next
    case False
    with fl have "\<lfloor>q\<rfloor> + 1 \<le> \<lfloor>q'\<rfloor>" by simp
    moreover have "rne q \<le> \<lfloor>q\<rfloor> + 1" by (auto simp: rne_def Let_def)
    moreover have "\<lfloor>q'\<rfloor> \<le> rne q'" by (auto simp: rne_def Let_def)
    ultimately show ?thesis by linarith
  qed
qed

lemma rne_error: "\<bar>of_int (rne q) - q\<bar> \<le> 1 / 2"
  by (auto simp: rne_def Let_def abs_le_iff)

lemma binade_up_bounds:
  "1 \<le> x \<Longrightarrow> 0 \<le> binade_up x \<and> 2 powi binade_up x \<le> x \<and> x < 2 powi (binade_up x + 1)"
proof (induction x rule: binade_up.induct)
  case (1 x)
  show ?case
  proof (cases "2 \<le> x")
    case True
    then have "1 \<le> x / 2" by simp
    with 1 True have IH: "0 \<le> binade_up (x / 2)" "2 powi binade_up (x / 2) \<le> x / 2"
      "x / 2 < 2 powi (binade_up (x / 2) + 1)" by simp_all
    have eq: "binade_up x = binade_up (x / 2) + 1"
      using True by (subst binade_up.simps) simp
    have "(2::real) powi (binade_up (x / 2) + 1) = 2 * 2 powi binade_up (x / 2)"
      by (simp add: power_int_add)
    moreover have "(2::real) powi (binade_up (x / 2) + 1 + 1) = 2 * 2 powi (binade_up (x / 2) + 1)"
      by (simp add: power_int_add)
    ultimately show ?thesis using IH eq by auto
  next
    case False
    then have "binade_up x = 0" by (subst binade_up.simps) simp
    with False 1(2) show ?thesis by simp
  qed
qed

lemma binade_down_ge1: "1 \<le> x \<Longrightarrow> binade_down k x = 0"
  by (cases k) simp_all

lemma binade_down_bounds:
  "0 < x \<Longrightarrow> x < 1 \<Longrightarrow>
     - int k \<le> binade_down k x \<and> binade_down k x \<le> 0 \<and> x < 2 powi (binade_down k x + 1) \<and>
     (- int k < binade_down k x \<longrightarrow> 2 powi binade_down k x \<le> x)"
proof (induction k arbitrary: x)
  case 0
  then show ?case by simp
next
  case (Suc k)
  show ?case
  proof (cases "2 * x < 1")
    case True
    from Suc.prems have "0 < 2 * x" by simp
    from Suc.IH [OF this True]
    have IH: "- int k \<le> binade_down k (2 * x)" "binade_down k (2 * x) \<le> 0"
      "2 * x < 2 powi (binade_down k (2 * x) + 1)"
      "- int k < binade_down k (2 * x) \<longrightarrow> 2 powi binade_down k (2 * x) \<le> 2 * x" by simp_all
    have eq: "binade_down (Suc k) x = binade_down k (2 * x) - 1" using Suc.prems by simp
    have p1: "(2::real) powi (binade_down k (2 * x) + 1) = 2 * 2 powi binade_down k (2 * x)"
      by (simp add: power_int_add)
    have p2: "(2::real) powi binade_down k (2 * x) = 2 * 2 powi (binade_down k (2 * x) - 1)"
      by (simp add: power_int_diff)
    show ?thesis using IH eq p1 p2 by auto
  next
    case False
    then have "binade_down k (2 * x) = 0" by (simp add: binade_down_ge1)
    then have eq: "binade_down (Suc k) x = -1" using Suc.prems by simp
    show ?thesis using eq False Suc.prems by simp
  qed
qed

lemma binade_bounds:
  assumes "0 < x"
  shows "- 1022 \<le> binade x" and "x < 2 powi (binade x + 1)"
    and "- 1022 < binade x \<Longrightarrow> 2 powi binade x \<le> x"
proof -
  show "- 1022 \<le> binade x"
    using binade_up_bounds [of x] binade_down_bounds [OF assms, of 1022]
    by (cases "1 \<le> x") (auto simp: binade_def)
  show "x < 2 powi (binade x + 1)"
    using binade_up_bounds [of x] binade_down_bounds [OF assms, of 1022]
    by (cases "1 \<le> x") (auto simp: binade_def)
  show "2 powi binade x \<le> x" if "- 1022 < binade x"
    using that binade_up_bounds [of x] binade_down_bounds [OF assms, of 1022]
    by (cases "1 \<le> x") (auto simp: binade_def)
qed

lemma binade_unique:
  assumes x: "0 < x" and e: "- 1022 \<le> e" and up: "x < 2 powi (e + 1)"
    and lo: "- 1022 < e \<Longrightarrow> 2 powi e \<le> x"
  shows "binade x = e"
proof (rule antisym)
  show "binade x \<le> e"
  proof (rule ccontr)
    assume "\<not> binade x \<le> e"
    then have lt: "e + 1 \<le> binade x" by simp
    then have "- 1022 < binade x" using e by simp
    then have "2 powi binade x \<le> x" by (rule binade_bounds(3) [OF x])
    moreover have "(2::real) powi (e + 1) \<le> 2 powi binade x"
      using lt by (simp add: power_int_increasing)
    ultimately show False using up by simp
  qed
  show "e \<le> binade x"
  proof (rule ccontr)
    assume "\<not> e \<le> binade x"
    then have lt: "binade x + 1 \<le> e" by simp
    then have "- 1022 < e" using binade_bounds(1) [OF x] by simp
    then have "2 powi e \<le> x" by (rule lo)
    moreover have "(2::real) powi (binade x + 1) \<le> 2 powi e"
      using lt by (simp add: power_int_increasing)
    ultimately show False using binade_bounds(2) [OF x] by simp
  qed
qed

lemma binade_mono:
  assumes "0 < x" and "x \<le> y"
  shows "binade x \<le> binade y"
proof (rule ccontr)
  assume "\<not> binade x \<le> binade y"
  then have lt: "binade y + 1 \<le> binade x" by simp
  have y: "0 < y" using assms by simp
  have "- 1022 < binade x" using lt binade_bounds(1) [OF y] by simp
  then have "2 powi binade x \<le> x" by (rule binade_bounds(3) [OF assms(1)])
  moreover have "(2::real) powi (binade y + 1) \<le> 2 powi binade x"
    using lt by (simp add: power_int_increasing)
  ultimately show False using binade_bounds(2) [OF y] assms(2) by simp
qed

lemma ulp_pos: "0 < ulp x"
  by (simp add: ulp_def)

lemma ulp_scale:
  shows "ulp x * 2 ^ 53 = 2 powi (binade x + 1)" and "ulp x * 2 ^ 52 = 2 powi binade x"
proof -
  have "(2::real) powi ((binade x - 52) + 53) = 2 powi (binade x - 52) * 2 powi 53"
    by (rule power_int_add) simp
  then show "ulp x * 2 ^ 53 = 2 powi (binade x + 1)" by (simp add: ulp_def add.commute)
  have "(2::real) powi ((binade x - 52) + 52) = 2 powi (binade x - 52) * 2 powi 52"
    by (rule power_int_add) simp
  then show "ulp x * 2 ^ 52 = 2 powi binade x" by (simp add: ulp_def)
qed

lemma significand_bounds:
  assumes "0 < x"
  shows "x / ulp x < 2 ^ 53" and "- 1022 < binade x \<Longrightarrow> 2 ^ 52 \<le> x / ulp x"
proof -
  show "x / ulp x < 2 ^ 53"
    using binade_bounds(2) [OF assms] ulp_pos [of x] ulp_scale(1) [of x]
    by (simp add: field_simps)
  show "2 ^ 52 \<le> x / ulp x" if "- 1022 < binade x"
    using binade_bounds(3) [OF assms that] ulp_pos [of x] ulp_scale(2) [of x]
    by (simp add: field_simps)
qed

lemma rne_bounds:
  assumes "0 < x"
  shows "0 \<le> rne (x / ulp x)" and "rne (x / ulp x) \<le> 2 ^ 53"
    and "- 1022 < binade x \<Longrightarrow> 2 ^ 52 \<le> rne (x / ulp x)"
proof -
  have "0 \<le> x / ulp x" using assms ulp_pos [of x] by simp
  then have "rne (of_int 0) \<le> rne (x / ulp x)" by (intro rne_mono) simp
  then show "0 \<le> rne (x / ulp x)" by (simp only: rne_of_int)
  have "x / ulp x \<le> of_int (2 ^ 53)" using significand_bounds(1) [OF assms] by simp
  then have "rne (x / ulp x) \<le> rne (of_int (2 ^ 53))" by (rule rne_mono)
  then show "rne (x / ulp x) \<le> 2 ^ 53" by (simp only: rne_of_int)
  show "2 ^ 52 \<le> rne (x / ulp x)" if "- 1022 < binade x"
  proof -
    have "of_int (2 ^ 52) \<le> x / ulp x" using significand_bounds(2) [OF assms that] by simp
    then have "rne (of_int (2 ^ 52)) \<le> rne (x / ulp x)" by (rule rne_mono)
    then show ?thesis by (simp only: rne_of_int)
  qed
qed

lemma binary64_pos: "0 < x \<Longrightarrow> binary64 x = of_int (rne (x / ulp x)) * ulp x"
  by (simp add: binary64_def)

lemma binary64_0 [simp]: "binary64 0 = 0"
  by (simp add: binary64_def)

lemma binary64_minus: "binary64 (- x) = - binary64 x"
  by (simp add: binary64_def sgn_minus)

lemma binary64_pos_bounds:
  assumes "0 < x"
  shows "0 \<le> binary64 x" and "binary64 x \<le> 2 powi (binade x + 1)"
    and "- 1022 < binade x \<Longrightarrow> 2 powi binade x \<le> binary64 x"
proof -
  show "0 \<le> binary64 x"
    using rne_bounds(1) [OF assms] ulp_pos [of x] by (simp add: binary64_pos [OF assms])
  have "of_int (rne (x / ulp x)) * ulp x \<le> 2 ^ 53 * ulp x"
    using rne_bounds(2) [OF assms] ulp_pos [of x]
    by (intro mult_right_mono) (simp_all add: of_int_le_numeral_power_cancel_iff)
  then show "binary64 x \<le> 2 powi (binade x + 1)"
    using ulp_scale(1) [of x] by (simp add: binary64_pos [OF assms] mult.commute)
  show "2 powi binade x \<le> binary64 x" if "- 1022 < binade x"
  proof -
    have "2 ^ 52 * ulp x \<le> of_int (rne (x / ulp x)) * ulp x"
      using rne_bounds(3) [OF assms that] ulp_pos [of x]
      by (intro mult_right_mono) (simp_all add: numeral_power_le_of_int_cancel_iff)
    then show ?thesis
      using ulp_scale(2) [of x] by (simp add: binary64_pos [OF assms] mult.commute)
  qed
qed

lemma binary64_mono_pos:
  assumes x: "0 < x" and le: "x \<le> y"
  shows "binary64 x \<le> binary64 y"
proof -
  have y: "0 < y" using x le by simp
  have b: "binade x \<le> binade y" using x le by (rule binade_mono)
  show ?thesis
  proof (cases "binade x = binade y")
    case True
    then have u: "ulp x = ulp y" by (simp add: ulp_def)
    have "x / ulp y \<le> y / ulp y" using le ulp_pos [of y] by (simp add: divide_right_mono)
    then have "rne (x / ulp y) \<le> rne (y / ulp y)" by (rule rne_mono)
    then have "of_int (rne (x / ulp y)) * ulp y \<le> of_int (rne (y / ulp y)) * ulp y"
      using ulp_pos [of y] by (intro mult_right_mono) simp_all
    then show ?thesis by (simp add: binary64_pos x y u)
  next
    case False
    with b have lt: "binade x + 1 \<le> binade y" by simp
    then have "- 1022 < binade y" using binade_bounds(1) [OF x] by simp
    then have "2 powi binade y \<le> binary64 y" by (rule binary64_pos_bounds(3) [OF y])
    moreover have "(2::real) powi (binade x + 1) \<le> 2 powi binade y"
      using lt by (simp add: power_int_increasing)
    ultimately show ?thesis using binary64_pos_bounds(2) [OF x] by simp
  qed
qed

lemma binary64_mono:
  assumes "x \<le> y"
  shows "binary64 x \<le> binary64 y"
proof -
  consider "0 < x" | "x \<le> 0" "0 < y" | "x < 0" "y = 0" | "x = 0" "y = 0" | "y < 0"
    using assms by linarith
  then show ?thesis
  proof cases
    case 1
    then show ?thesis using assms by (rule binary64_mono_pos)
  next
    case 2
    have "binary64 x \<le> 0"
    proof (cases "x = 0")
      case True then show ?thesis by simp
    next
      case False
      with 2 have "0 < - x" by simp
      then have "0 \<le> binary64 (- x)" by (rule binary64_pos_bounds(1))
      then show ?thesis by (simp add: binary64_minus)
    qed
    moreover have "0 \<le> binary64 y" using 2 by (intro binary64_pos_bounds(1))
    ultimately show ?thesis by simp
  next
    case 3
    then have "0 < - x" by simp
    then have "0 \<le> binary64 (- x)" by (rule binary64_pos_bounds(1))
    then show ?thesis using 3 by (simp add: binary64_minus)
  next
    case 4
    then show ?thesis by simp
  next
    case 5
    then have "0 < - y" and "- y \<le> - x" using assms by simp_all
    then have "binary64 (- y) \<le> binary64 (- x)" by (rule binary64_mono_pos)
    then show ?thesis by (simp add: binary64_minus)
  qed
qed

lemma binary64_nonneg: "0 \<le> x \<Longrightarrow> 0 \<le> binary64 x"
  using binary64_mono [of 0 x] by simp

lemma binary64_eval:
  assumes x: "0 < x" and e: "- 1022 \<le> e" and up: "x < 2 powi (e + 1)"
    and lo: "- 1022 < e \<Longrightarrow> 2 powi e \<le> x"
  shows "binary64 x = of_int (rne (x / 2 powi (e - 52))) * 2 powi (e - 52)"
proof -
  have "binade x = e" using x e up lo by (rule binade_unique)
  then show ?thesis by (simp add: binary64_pos [OF x] ulp_def)
qed

lemma binary64_error: "\<bar>binary64 x - x\<bar> \<le> ulp \<bar>x\<bar> / 2"
proof -
  have pos: "\<bar>binary64 x - x\<bar> \<le> ulp x / 2" if "0 < x" for x
  proof -
    have "\<bar>of_int (rne (x / ulp x)) - x / ulp x\<bar> * ulp x \<le> 1 / 2 * ulp x"
      using rne_error [of "x / ulp x"] ulp_pos [of x] by (intro mult_right_mono) simp_all
    moreover have "\<bar>of_int (rne (x / ulp x)) - x / ulp x\<bar> * ulp x
        = \<bar>of_int (rne (x / ulp x)) * ulp x - x\<bar>"
    proof -
      have "(of_int (rne (x / ulp x)) - x / ulp x) * ulp x = of_int (rne (x / ulp x)) * ulp x - x"
        using ulp_pos [of x] by (simp add: left_diff_distrib)
      then have "\<bar>of_int (rne (x / ulp x)) * ulp x - x\<bar>
          = \<bar>of_int (rne (x / ulp x)) - x / ulp x\<bar> * \<bar>ulp x\<bar>"
        by (simp only: abs_mult [symmetric])
      then show ?thesis using ulp_pos [of x] by simp
    qed
    ultimately show ?thesis by (simp add: binary64_pos [OF that])
  qed
  consider "0 < x" | "x = 0" | "x < 0" by linarith
  then show ?thesis
  proof cases
    case 1 then show ?thesis using pos [of x] by simp
  next
    case 2 then show ?thesis using ulp_pos [of 0] by simp
  next
    case 3
    then have "\<bar>binary64 (- x) - (- x)\<bar> \<le> ulp (- x) / 2" by (intro pos) simp
    then show ?thesis using 3 by (simp add: binary64_minus abs_minus_commute)
  qed
qed

lemma rne_numeral [simp]: "rne (numeral n) = numeral n"
  using rne_of_int [of "numeral n"] by simp

lemma binary64_1 [simp]: "binary64 1 = 1"
  using binary64_eval [of 1 0] by simp

lemma binary64_error_bound:
  assumes "0 \<le> x" and "x \<le> B" and "1 \<le> B"
  shows "\<bar>binary64 x - x\<bar> \<le> B / 2 ^ 53"
proof (cases "x = 0")
  case True
  with assms show ?thesis by simp
next
  case False
  with assms have x: "0 < x" by simp
  have half: "ulp x / 2 = 2 powi binade x / 2 ^ 53"
    using ulp_scale(2) [of x] by (simp add: field_simps)
  have "2 powi binade x \<le> B"
  proof (cases "- 1022 < binade x")
    case True
    then have "2 powi binade x \<le> x" by (rule binade_bounds(3) [OF x])
    with assms show ?thesis by simp
  next
    case False
    with binade_bounds(1) [OF x] have "binade x = - 1022" by simp
    then have "(2::real) powi binade x \<le> 1" by (simp add: power_int_minus field_simps)
    with assms show ?thesis by simp
  qed
  then have "ulp x / 2 \<le> B / 2 ^ 53" by (simp add: half divide_right_mono)
  moreover have "\<bar>binary64 x - x\<bar> \<le> ulp x / 2" using binary64_error [of x] x by simp
  ultimately show ?thesis by simp
qed

lemma binary64_of_nat:
  assumes "n < 2 ^ 53"
  shows "binary64 (real n) = real n"
proof (cases "n = 0")
  case True
  then show ?thesis by simp
next
  case False
  then have x: "0 < real n" and one: "1 \<le> real n" by simp_all
  define e where "e = binade (real n)"
  have e0: "0 \<le> e" using binade_up_bounds [OF one] one by (simp add: e_def binade_def)
  then have "- 1022 < e" by simp
  then have "2 powi e \<le> real n" unfolding e_def by (rule binade_bounds(3) [OF x])
  moreover have "real n < 2 ^ 53" using assms by (simp add: of_nat_less_numeral_power_cancel_iff)
  ultimately have lt: "(2::real) powi e < 2 powi 53" by simp
  have e52: "e \<le> 52"
  proof (rule ccontr)
    assume "\<not> e \<le> 52"
    then have "53 \<le> e" by simp
    then have "(2::real) powi 53 \<le> 2 powi e" by (intro power_int_increasing) simp_all
    with lt show False by simp
  qed
  define k where "k = nat (52 - e)"
  have k: "52 - e = int k" using e52 by (simp add: k_def)
  have u: "ulp (real n) = 1 / 2 ^ k"
    using k by (simp add: ulp_def e_def [symmetric] power_int_minus_divide [of 2 "52 - e", simplified])
  have "real n / ulp (real n) = of_int (int n * 2 ^ k)" by (simp add: u)
  then have "rne (real n / ulp (real n)) = int n * 2 ^ k" by (simp only: rne_of_int)
  then show ?thesis by (simp add: binary64_pos [OF x] u)
qed

lemma binary64_eval_normal:
  assumes "0 < x" and "- 1022 \<le> e" and "2 powi e \<le> x" and "x < 2 powi (e + 1)"
  shows "binary64 x = of_int (rne (x / 2 powi (e - 52))) * 2 powi (e - 52)"
  using assms by (intro binary64_eval) simp_all

lemma binary64_samples:
  "binary64 (1 / 2) = 1 / 2" "binary64 (1 / 4) = 1 / 4" "binary64 (3 / 4) = 3 / 4"
  "binary64 (3 / 8) = 3 / 8" "binary64 (1 + 1 / 2 ^ 60) = 1"
  using binary64_eval_normal [of "1 / 2" "- 1"] binary64_eval_normal [of "1 / 4" "- 2"]
    binary64_eval_normal [of "3 / 4" "- 1"] binary64_eval_normal [of "3 / 8" "- 2"]
    binary64_eval_normal [of "1 + 1 / 2 ^ 60" 0]
  by (simp_all add: rne_def)

lemma binary64_small_ints: "binary64 2 = 2" "binary64 4 = 4"
  using binary64_of_nat [of 2] binary64_of_nat [of 4] by simp_all

subsection \<open>Confidence\<close>

lemma foldl_plus64_scores:
  "foldl (\<lambda>sum src. plus64 sum (SearchSource.score src)) a srcs
     = foldl plus64 a (map SearchSource.score srcs)"
  by (induction srcs arbitrary: a) simp_all

lemma calculateConfidence_scores:
  "calculateConfidence srcs =
     (if map SearchSource.score srcs = [] then 0
      else min (divide64 (foldl plus64 0 (map SearchSource.score srcs))
                  (real (length (map SearchSource.score srcs)))) 1)"
  by (simp add: calculateConfidence_def foldl_plus64_scores)

lemma foldl_plus64_exact:
  assumes "\<forall>k\<le>length xs. binary64 (sum_list (take k xs)) = sum_list (take k xs)"
  shows "foldl plus64 0 xs = sum_list xs"
  using assms
proof (induction xs rule: rev_induct)
  case Nil
  show ?case by simp
next
  case (snoc x xs)
  have "\<forall>k\<le>length xs. binary64 (sum_list (take k xs)) = sum_list (take k xs)"
  proof (intro allI impI)
    fix k assume k: "k \<le> length xs"
    then have "k \<le> length (xs @ [x])" by simp
    with snoc.prems have "binary64 (sum_list (take k (xs @ [x]))) = sum_list (take k (xs @ [x]))"
      by blast
    with k show "binary64 (sum_list (take k xs)) = sum_list (take k xs)" by simp
  qed
  then have IH: "foldl plus64 0 xs = sum_list xs" by (rule snoc.IH)
  have "binary64 (sum_list (take (length (xs @ [x])) (xs @ [x])))
      = sum_list (take (length (xs @ [x])) (xs @ [x]))"
    using snoc.prems by blast
  then have "binary64 (sum_list xs + x) = sum_list xs + x" by simp
  then have "plus64 (sum_list xs) x = sum_list xs + x" by (simp add: plus64_def)
  with IH show ?case by simp
qed

lemma foldl_plus64_error:
  assumes "\<forall>x\<in>set xs. 0 \<le> x \<and> x \<le> 1" and "length xs < 2 ^ 53"
  shows "0 \<le> foldl plus64 0 xs \<and> foldl plus64 0 xs \<le> real (length xs) \<and>
         \<bar>foldl plus64 0 xs - sum_list xs\<bar>
           \<le> real (length xs) * (real (length xs) + 1) / 2 / 2 ^ 53"
  using assms
proof (induction xs rule: rev_induct)
  case Nil
  show ?case by simp
next
  case (snoc x xs)
  define s where "s = foldl plus64 0 xs"
  define k where "k = real (length xs)"
  from snoc.prems have x: "0 \<le> x" "x \<le> 1" and len: "length xs < 2 ^ 53"
    and small: "Suc (length xs) < 2 ^ 53" by simp_all
  from snoc.IH snoc.prems len
  have IH: "0 \<le> s" "s \<le> k" "\<bar>s - sum_list xs\<bar> \<le> k * (k + 1) / 2 / 2 ^ 53"
    by (simp_all add: s_def k_def)
  have k0: "0 \<le> k" by (simp add: k_def)
  have range: "0 \<le> s + x" "s + x \<le> k + 1" using IH x by simp_all
  have nonneg: "0 \<le> binary64 (s + x)" using range(1) by (rule binary64_nonneg)
  have "binary64 (s + x) \<le> binary64 (k + 1)" using range(2) by (rule binary64_mono)
  moreover have "binary64 (k + 1) = k + 1"
    using binary64_of_nat [OF small] by (simp add: k_def add.commute)
  ultimately have upper: "binary64 (s + x) \<le> k + 1" by simp
  have "\<bar>binary64 (s + x) - (s + x)\<bar> \<le> (k + 1) / 2 ^ 53"
    using range k0 by (intro binary64_error_bound) simp_all
  then have "\<bar>binary64 (s + x) - (sum_list xs + x)\<bar>
      \<le> k * (k + 1) / 2 / 2 ^ 53 + (k + 1) / 2 ^ 53"
    using IH(3) by linarith
  also have "\<dots> = (k + 1) * (k + 1 + 1) / 2 / 2 ^ 53"
    by (simp add: field_simps)
  finally have err: "\<bar>binary64 (s + x) - (sum_list xs + x)\<bar>
      \<le> (k + 1) * (k + 1 + 1) / 2 / 2 ^ 53" .
  have "foldl plus64 0 (xs @ [x]) = plus64 s x" by (simp add: s_def)
  then have eq: "foldl plus64 0 (xs @ [x]) = binary64 (s + x)" by (simp add: plus64_def)
  have lenk: "real (length (xs @ [x])) = k + 1" by (simp add: k_def)
  show ?case
    using nonneg upper err
    by (simp only: eq lenk sum_list_append sum_list.Cons sum_list.Nil add_0_right)
qed

lemma mean64_error:
  assumes "\<forall>x\<in>set xs. 0 \<le> x \<and> x \<le> 1" and "length xs < 2 ^ 53" and "xs \<noteq> []"
  shows "0 \<le> divide64 (foldl plus64 0 xs) (real (length xs)) \<and>
         divide64 (foldl plus64 0 xs) (real (length xs)) \<le> 1 \<and>
         \<bar>divide64 (foldl plus64 0 xs) (real (length xs)) - sum_list xs / real (length xs)\<bar>
           \<le> (real (length xs) + 3) / 2 ^ 54"
proof -
  define s where "s = foldl plus64 0 xs"
  define n where "n = real (length xs)"
  have n: "1 \<le> n" using assms(3) by (cases xs) (simp_all add: n_def)
  from foldl_plus64_error [OF assms(1,2)]
  have s: "0 \<le> s" "s \<le> n" "\<bar>s - sum_list xs\<bar> \<le> n * (n + 1) / 2 / 2 ^ 53"
    by (simp_all add: s_def n_def)
  have q: "0 \<le> s / n" "s / n \<le> 1" using s n by simp_all
  have lo: "0 \<le> binary64 (s / n)" using q(1) by (rule binary64_nonneg)
  have "binary64 (s / n) \<le> binary64 1" using q(2) by (rule binary64_mono)
  then have hi: "binary64 (s / n) \<le> 1" by simp
  have e1: "\<bar>binary64 (s / n) - s / n\<bar> \<le> 1 / 2 ^ 53"
    using q by (intro binary64_error_bound) simp_all
  have "\<bar>s / n - sum_list xs / n\<bar> = \<bar>s - sum_list xs\<bar> / n"
    using n by (simp add: diff_divide_distrib [symmetric])
  also have "\<dots> \<le> (n * (n + 1) / 2 / 2 ^ 53) / n"
    using s(3) n by (intro divide_right_mono) simp_all
  also have "\<dots> = (n + 1) / 2 / 2 ^ 53" using n by simp
  finally have e2: "\<bar>s / n - sum_list xs / n\<bar> \<le> (n + 1) / 2 / 2 ^ 53" .
  have "\<bar>binary64 (s / n) - sum_list xs / n\<bar> \<le> 1 / 2 ^ 53 + (n + 1) / 2 / 2 ^ 53"
    using e1 e2 by linarith
  also have "\<dots> = (n + 3) / 2 ^ 54" by (simp add: field_simps)
  finally have "\<bar>binary64 (s / n) - sum_list xs / n\<bar> \<le> (n + 3) / 2 ^ 54" .
  with lo hi show ?thesis by (simp add: divide64_def s_def n_def)
qed

lemma calculateConfidence_error:
  assumes "srcs \<noteq> []" and "length srcs < 2 ^ 53"
    and "\<forall>src\<in>set srcs. 0 \<le> SearchSource.score src \<and> SearchSource.score src \<le> 1"
  shows "\<bar>calculateConfidence srcs - sum_list (map SearchSource.score srcs) / real (length srcs)\<bar>
           \<le> (real (length srcs) + 3) / 2 ^ 54"
proof -
  let ?xs = "map SearchSource.score srcs"
  from assms have "\<forall>x\<in>set ?xs. 0 \<le> x \<and> x \<le> 1" and "length ?xs < 2 ^ 53" and "?xs \<noteq> []"
    by auto
  from mean64_error [OF this]
  have m: "divide64 (foldl plus64 0 ?xs) (real (length ?xs)) \<le> 1"
    "\<bar>divide64 (foldl plus64 0 ?xs) (real (length ?xs)) - sum_list ?xs / real (length ?xs)\<bar>
       \<le> (real (length ?xs) + 3) / 2 ^ 54" by simp_all
  have "calculateConfidence srcs = divide64 (foldl plus64 0 ?xs) (real (length ?xs))"
    using assms(1) m(1) by (simp add: calculateConfidence_scores)
  with m(2) show ?thesis by simp
qed

text \<open>C1, as stated: for a non-empty list the confidence equals the arithmetic mean of the
  scores, clamped above at 1. It fails by rounding: on the scores 1 and \<open>2 ^ -60\<close> the sum
  rounds to 1 and the confidence is exactly \<open>1 / 2\<close>, while the mean is \<open>1 / 2 + 2 ^ -61\<close>.\<close>

theorem C1_counterexample:
  "calculateConfidence [sample_source 1, sample_source (1 / 2 ^ 60)] = 1 / 2 \<and>
   sum_list (map SearchSource.score [sample_source 1, sample_source (1 / 2 ^ 60)])
     / real (length [sample_source 1, sample_source (1 / 2 ^ 60)]) = 1 / 2 + 1 / 2 ^ 61 \<and>
   calculateConfidence [sample_source 1, sample_source (1 / 2 ^ 60)]
     \<noteq> min (sum_list (map SearchSource.score [sample_source 1, sample_source (1 / 2 ^ 60)])
              / real (length [sample_source 1, sample_source (1 / 2 ^ 60)])) 1"
proof -
  have s1: "plus64 0 1 = 1" by (simp add: plus64_def)
  have s2: "plus64 1 (1 / 2 ^ 60) = 1" unfolding plus64_def by (rule binary64_samples(5))
  have q: "divide64 1 2 = 1 / 2" unfolding divide64_def by (rule binary64_samples(1))
  show ?thesis
    using s1 s2 q by (simp add: calculateConfidence_def sample_source_def)
qed

text \<open>C1, amended: for the empty list \<^verbatim>\<open>calculateConfidence\<close> is exactly 0. For a non-empty list
  it is the binary64 evaluation of the mean, clamped above at 1: it equals the arithmetic
  mean clamped at 1 whenever every partial sum of the scores and the quotient are finite
  binary64 numbers, so that nothing is rounded and nothing overflows; and for scores in
  \<open>[0, 1]\<close> it lies in \<open>[0, 1]\<close> and differs from the arithmetic mean by at most
  \<open>(n + 3) / 2 ^ 54\<close>, \<open>n\<close> the number of sources (below \<open>2 ^ 53\<close>).\<close>

theorem C1_calculateConfidence_mean:
  "calculateConfidence [] = 0 \<and>
   (srcs \<noteq> [] \<and>
    (\<forall>k\<le>length srcs. finite64 (sum_list (take k (map SearchSource.score srcs)))) \<and>
    finite64 (sum_list (map SearchSource.score srcs) / real (length srcs)) \<longrightarrow>
      calculateConfidence srcs =
        min (sum_list (map SearchSource.score srcs) / real (length srcs)) 1) \<and>
   (srcs \<noteq> [] \<and> length srcs < 2 ^ 53 \<and>
    (\<forall>src\<in>set srcs. 0 \<le> SearchSource.score src \<and> SearchSource.score src \<le> 1) \<longrightarrow>
      0 \<le> calculateConfidence srcs \<and> calculateConfidence srcs \<le> 1 \<and>
      \<bar>calculateConfidence srcs - sum_list (map SearchSource.score srcs) / real (length srcs)\<bar>
        \<le> (real (length srcs) + 3) / 2 ^ 54)"
proof (intro conjI impI)
  show "calculateConfidence [] = 0" by (simp add: calculateConfidence_def)
next
  assume h: "srcs \<noteq> [] \<and>
    (\<forall>k\<le>length srcs. finite64 (sum_list (take k (map SearchSource.score srcs)))) \<and>
    finite64 (sum_list (map SearchSource.score srcs) / real (length srcs))"
  then have "\<forall>k\<le>length (map SearchSource.score srcs).
      binary64 (sum_list (take k (map SearchSource.score srcs)))
        = sum_list (take k (map SearchSource.score srcs))"
    by (simp add: finite64_def)
  then have "foldl plus64 0 (map SearchSource.score srcs) = sum_list (map SearchSource.score srcs)"
    by (rule foldl_plus64_exact)
  moreover from h
  have "binary64 (sum_list (map SearchSource.score srcs) / real (length srcs))
      = sum_list (map SearchSource.score srcs) / real (length srcs)"
    by (simp add: finite64_def)
  ultimately show "calculateConfidence srcs =
        min (sum_list (map SearchSource.score srcs) / real (length srcs)) 1"
    using h by (simp add: calculateConfidence_scores divide64_def)
next
  assume h: "srcs \<noteq> [] \<and> length srcs < 2 ^ 53 \<and>
    (\<forall>src\<in>set srcs. 0 \<le> SearchSource.score src \<and> SearchSource.score src \<le> 1)"
  let ?xs = "map SearchSource.score srcs"
  from h have "\<forall>x\<in>set ?xs. 0 \<le> x \<and> x \<le> 1" and "length ?xs < 2 ^ 53" and "?xs \<noteq> []"
    by auto
  from mean64_error [OF this]
  have m: "0 \<le> divide64 (foldl plus64 0 ?xs) (real (length ?xs))"
    "divide64 (foldl plus64 0 ?xs) (real (length ?xs)) \<le> 1"
    "\<bar>divide64 (foldl plus64 0 ?xs) (real (length ?xs)) - sum_list ?xs / real (length ?xs)\<bar>
       \<le> (real (length ?xs) + 3) / 2 ^ 54" by simp_all
  have c: "calculateConfidence srcs = divide64 (foldl plus64 0 ?xs) (real (length ?xs))"
    using h m(2) by (simp add: calculateConfidence_scores)
  show "0 \<le> calculateConfidence srcs" using m(1) c by simp
  show "calculateConfidence srcs \<le> 1" using m(2) c by simp
  show "\<bar>calculateConfidence srcs - sum_list (map SearchSource.score srcs) / real (length srcs)\<bar>
        \<le> (real (length srcs) + 3) / 2 ^ 54" using m(3) c by simp
qed

theorem C1_calculateConfidence_mean_witness:
  "calculateConfidence [sample_source (1 / 2), sample_source (1 / 4)] = 3 / 8 \<and>
   \<bar>calculateConfidence [sample_source (1 / 2), sample_source (1 / 4)] - 3 / 8\<bar> \<le> 5 / 2 ^ 54"
proof -
  let ?srcs = "[sample_source (1 / 2), sample_source (1 / 4)]"
  have scores: "map SearchSource.score ?srcs = [1 / 2, 1 / 4]" by (simp add: sample_source_def)
  have exact: "?srcs \<noteq> [] \<and>
    (\<forall>k\<le>length ?srcs. finite64 (sum_list (take k (map SearchSource.score ?srcs)))) \<and>
    finite64 (sum_list (map SearchSource.score ?srcs) / real (length ?srcs))"
  proof (intro conjI allI impI)
    show "?srcs \<noteq> []" by simp
    fix k assume "k \<le> length ?srcs"
    then consider "k = 0" | "k = 1" | "k = 2" by (auto simp: le_Suc_eq)
    then show "finite64 (sum_list (take k (map SearchSource.score ?srcs)))"
      by cases (simp_all add: sample_source_def finite64_def max64_def binary64_samples)
  next
    show "finite64 (sum_list (map SearchSource.score ?srcs) / real (length ?srcs))"
      by (simp add: sample_source_def finite64_def max64_def binary64_samples)
  qed
  have bounded: "?srcs \<noteq> [] \<and> length ?srcs < 2 ^ 53 \<and>
    (\<forall>src\<in>set ?srcs. 0 \<le> SearchSource.score src \<and> SearchSource.score src \<le> 1)"
    by (simp add: sample_source_def)
  from C1_calculateConfidence_mean [of ?srcs] exact bounded
  have "calculateConfidence ?srcs = min (sum_list (map SearchSource.score ?srcs) / real (length ?srcs)) 1"
    and "\<bar>calculateConfidence ?srcs - sum_list (map SearchSource.score ?srcs) / real (length ?srcs)\<bar>
        \<le> (real (length ?srcs) + 3) / 2 ^ 54"
    by blast+
  then show ?thesis by (simp add: sample_source_def)
qed

subsection \<open>Scores of the search results\<close>

lemma search_Inr_formatResults:
  "search svc vs query' options' w = (Inr results, w') \<Longrightarrow> \<exists>resp. results = formatResults resp"
  by (auto simp: search_def Let_def split: option.splits prod.splits sum.splits)

lemma search_Inr_response:
  assumes "search svc vs query' options' w = (Inr results, w')"
  shows "\<exists>c queryEmbedding w1 resp.
           collection vs = Some c \<and>
           collection_query svc c queryEmbedding
              (case VectorSearchOptions.topK options' of Some k \<Rightarrow> k | None \<Rightarrow> 5)
              (filter options') w1 = (Inr resp, w') \<and>
           results = formatResults resp"
  using assms
  by (auto simp: search_def Let_def generateEmbedding_def split: option.splits prod.splits sum.splits)

lemma formatResults_score:
  "r \<in> set (formatResults resp) \<Longrightarrow> VectorSearchResult.score r = scoreOf (distance r)"
  by (auto simp: formatResults_def searchResultAt_def Let_def split: option.splits)

lemma formatResults_distances:
  "map distance (formatResults resp) = indexDistances resp"
  by (simp add: formatResults_def indexDistances_def indexIds_def searchResultAt_def Let_def
        split: option.splits)

lemma formatResults_ids:
  "map (\<lambda>r. VectorDocument.id (document r)) (formatResults resp) = indexIds resp"
proof (cases "nth_opt (ids resp) 0")
  case None
  then show ?thesis by (simp add: formatResults_def indexIds_def)
next
  case (Some ids0)
  have "map (\<lambda>i. ids0 ! i) [0 ..< length ids0] = ids0" by (rule map_nth)
  with Some show ?thesis
    by (simp add: formatResults_def indexIds_def searchResultAt_def Let_def comp_def)
qed

lemma formatResults_scores:
  "map VectorSearchResult.score (formatResults resp) = map scoreOf (indexDistances resp)"
  by (simp add: formatResults_def indexDistances_def indexIds_def searchResultAt_def Let_def
        split: option.splits)

lemma search_score:
  assumes "search svc vs query' options' w = (Inr results, w')" and "r \<in> set results"
  shows "VectorSearchResult.score r = scoreOf (distance r)"
proof -
  from search_Inr_formatResults [OF assms(1)] obtain resp where "results = formatResults resp" ..
  with assms(2) show ?thesis by (simp add: formatResults_score)
qed

lemma plus64_one_ge: "0 \<le> d \<Longrightarrow> 1 \<le> plus64 1 d"
  using binary64_mono [of 1 "1 + d"] by (simp add: plus64_def)

lemma scoreOf_bounds:
  assumes "0 \<le> d"
  shows "scoreOf (Some d) = divide64 1 (plus64 1 d)" and "0 \<le> scoreOf (Some d)"
    and "scoreOf (Some d) \<le> 1" and "d = 0 \<longrightarrow> scoreOf (Some d) = 1"
proof -
  have ge: "1 \<le> plus64 1 d" using assms by (rule plus64_one_ge)
  show "scoreOf (Some d) = divide64 1 (plus64 1 d)" by (simp add: scoreOf_def)
  have "0 \<le> 1 / plus64 1 d" using ge by simp
  then show "0 \<le> scoreOf (Some d)" by (simp add: scoreOf_def divide64_def binary64_nonneg)
  have "1 / plus64 1 d \<le> 1" using ge by simp
  then have "binary64 (1 / plus64 1 d) \<le> binary64 1" by (rule binary64_mono)
  then show "scoreOf (Some d) \<le> 1" by (simp add: scoreOf_def divide64_def)
  show "d = 0 \<longrightarrow> scoreOf (Some d) = 1"
    by (simp add: scoreOf_def divide64_def plus64_def)
qed

lemma scoreOf_antimono:
  assumes "0 \<le> d1" and "d1 \<le> d2"
  shows "scoreOf (Some d2) \<le> scoreOf (Some d1)"
proof -
  have ge: "1 \<le> plus64 1 d1" using assms(1) by (rule plus64_one_ge)
  have "plus64 1 d1 \<le> plus64 1 d2"
    using assms(2) by (simp add: plus64_def binary64_mono)
  then have "1 / plus64 1 d2 \<le> 1 / plus64 1 d1"
    using ge by (intro divide_left_mono) (simp_all add: mult_pos_pos)
  then show ?thesis by (simp add: scoreOf_def divide64_def binary64_mono)
qed

lemma sample_search:
  "search (sample_services resp msg) \<lparr>collection = Some ''bankin_crm_data''\<rparr> ''VIP''
      \<lparr>VectorSearchOptions.topK = Some 5, filter = None\<rparr> [] = (Inr (formatResults resp), [])"
  by (simp add: search_def generateEmbedding_def sample_services_def)

lemma sample_scores:
  "scoreOf (Some 0) = 1" "scoreOf (Some 1) = 1 / 2" "scoreOf (Some 3) = 1 / 4"
  "scoreOf (Some (1 / 2 ^ 60)) = 1"
proof -
  show "scoreOf (Some 0) = 1" by (simp add: scoreOf_def plus64_def divide64_def)
  have "plus64 1 1 = 2" by (simp add: plus64_def binary64_small_ints)
  then show "scoreOf (Some 1) = 1 / 2" by (simp add: scoreOf_def divide64_def binary64_samples)
  have "plus64 1 3 = 4" by (simp add: plus64_def binary64_small_ints)
  then show "scoreOf (Some 3) = 1 / 4" by (simp add: scoreOf_def divide64_def binary64_samples)
  have "plus64 1 (1 / 2 ^ 60) = 1" unfolding plus64_def by (rule binary64_samples(5))
  then show "scoreOf (Some (1 / 2 ^ 60)) = 1" by (simp only: scoreOf_def option.case divide64_def) simp
qed

lemma sample_indexDistances:
  "indexDistances sample_response = [Some 0, Some 1, Some 3]"
  "indexDistances sample_response_close = [Some 0, Some (1 / 2 ^ 60)]"
  by (simp_all add: indexDistances_def indexIds_def sample_response_def
        sample_response_close_def at0_def upt_rec)

lemma sample_formatResults:
  "map distance (formatResults sample_response) = [Some 0, Some 1, Some 3] \<and>
   map VectorSearchResult.score (formatResults sample_response) = [1, 1 / 2, 1 / 4]"
  by (simp only: formatResults_distances formatResults_scores sample_indexDistances(1)
        list.map sample_scores)

lemma sample_formatResults_close:
  "map distance (formatResults sample_response_close) = [Some 0, Some (1 / 2 ^ 60)] \<and>
   map VectorSearchResult.score (formatResults sample_response_close) = [1, 1]"
  by (simp only: formatResults_distances formatResults_scores sample_indexDistances(2)
        list.map sample_scores)

text \<open>C2, as stated: of two results the one with the smaller distance has the strictly
  higher score. It fails by rounding: the index distances 0 and \<open>2 ^ -60\<close> both get the score
  1, since \<open>1 + 2 ^ -60\<close> rounds to 1.\<close>

theorem C2_counterexample:
  "search (sample_services sample_response_close sample_message)
      \<lparr>collection = Some ''bankin_crm_data''\<rparr> ''VIP''
      \<lparr>VectorSearchOptions.topK = Some 5, filter = None\<rparr> []
     = (Inr (formatResults sample_response_close), []) \<and>
   map distance (formatResults sample_response_close) = [Some 0, Some (1 / 2 ^ 60)] \<and>
   (0::real) < 1 / 2 ^ 60 \<and>
   map VectorSearchResult.score (formatResults sample_response_close) = [1, 1] \<and>
   sorted_wrt (<) (map the (map distance (formatResults sample_response_close))) \<and>
   \<not> sorted_wrt (>) (map VectorSearchResult.score (formatResults sample_response_close))"
  using sample_search [of sample_response_close sample_message] sample_formatResults_close
  by simp

text \<open>C2, amended: for the results of \<^verbatim>\<open>search\<close> whose raw distance is a non-negative number,
  the score is the binary64 value of \<open>1 / (1 + distance)\<close>, it lies in \<open>[0, 1]\<close>, distance zero
  gives the maximum 1, and of two such results the one with the smaller distance has a score
  at least as high (equal scores are possible). The results come in the order of the index,
  with the keys and the raw distances of its response; so when the index returns
  non-negative distances in non-decreasing order, the scores of the returned list are in
  non-increasing order.\<close>

theorem C2_score_nonincreasing_in_distance:
  assumes run: "search svc vs query' options' w = (Inr results, w')"
  shows "(\<forall>r\<in>set results. \<forall>d. distance r = Some d \<and> 0 \<le> d \<longrightarrow>
            VectorSearchResult.score r = divide64 1 (plus64 1 d) \<and>
            0 \<le> VectorSearchResult.score r \<and> VectorSearchResult.score r \<le> 1 \<and>
            (d = 0 \<longrightarrow> VectorSearchResult.score r = 1)) \<and>
         (\<forall>r1\<in>set results. \<forall>r2\<in>set results. \<forall>d1 d2.
            distance r1 = Some d1 \<and> distance r2 = Some d2 \<and> 0 \<le> d1 \<and> d1 \<le> d2 \<longrightarrow>
            VectorSearchResult.score r2 \<le> VectorSearchResult.score r1) \<and>
         (\<exists>c queryEmbedding w1 resp.
            collection vs = Some c \<and>
            collection_query svc c queryEmbedding
               (case VectorSearchOptions.topK options' of Some k \<Rightarrow> k | None \<Rightarrow> 5)
               (filter options') w1 = (Inr resp, w') \<and>
            map (\<lambda>r. VectorDocument.id (document r)) results = indexIds resp \<and>
            map distance results = indexDistances resp \<and>
            ((\<forall>x\<in>set (indexDistances resp). \<exists>d. x = Some d \<and> 0 \<le> d) \<and>
             sorted (map the (indexDistances resp)) \<longrightarrow>
               sorted_wrt (\<ge>) (map VectorSearchResult.score results)))"
proof (intro conjI)
  show "\<forall>r\<in>set results. \<forall>d. distance r = Some d \<and> 0 \<le> d \<longrightarrow>
            VectorSearchResult.score r = divide64 1 (plus64 1 d) \<and>
            0 \<le> VectorSearchResult.score r \<and> VectorSearchResult.score r \<le> 1 \<and>
            (d = 0 \<longrightarrow> VectorSearchResult.score r = 1)"
  proof (intro ballI allI impI)
    fix r d assume r: "r \<in> set results" and d: "distance r = Some d \<and> 0 \<le> d"
    have "VectorSearchResult.score r = scoreOf (Some d)"
      using search_score [OF run r] d by simp
    then show "VectorSearchResult.score r = divide64 1 (plus64 1 d) \<and>
            0 \<le> VectorSearchResult.score r \<and> VectorSearchResult.score r \<le> 1 \<and>
            (d = 0 \<longrightarrow> VectorSearchResult.score r = 1)"
      using scoreOf_bounds [of d] d by auto
  qed
next
  show "\<forall>r1\<in>set results. \<forall>r2\<in>set results. \<forall>d1 d2.
            distance r1 = Some d1 \<and> distance r2 = Some d2 \<and> 0 \<le> d1 \<and> d1 \<le> d2 \<longrightarrow>
            VectorSearchResult.score r2 \<le> VectorSearchResult.score r1"
  proof (intro ballI allI impI)
    fix r1 r2 d1 d2
    assume r1: "r1 \<in> set results" and r2: "r2 \<in> set results"
      and d: "distance r1 = Some d1 \<and> distance r2 = Some d2 \<and> 0 \<le> d1 \<and> d1 \<le> d2"
    have "VectorSearchResult.score r1 = scoreOf (Some d1)"
      and "VectorSearchResult.score r2 = scoreOf (Some d2)"
      using search_score [OF run r1] search_score [OF run r2] d by simp_all
    then show "VectorSearchResult.score r2 \<le> VectorSearchResult.score r1"
      using scoreOf_antimono [of d1 d2] d by simp
  qed
next
  from search_Inr_response [OF run] obtain c queryEmbedding w1 resp
    where c: "collection vs = Some c"
      and q: "collection_query svc c queryEmbedding
               (case VectorSearchOptions.topK options' of Some k \<Rightarrow> k | None \<Rightarrow> 5)
               (filter options') w1 = (Inr resp, w')"
      and res: "results = formatResults resp" by blast
  have ids': "map (\<lambda>r. VectorDocument.id (document r)) results = indexIds resp"
    by (simp add: res formatResults_ids)
  have ds: "map distance results = indexDistances resp"
    by (simp add: res formatResults_distances)
  have ordered: "sorted_wrt (\<ge>) (map VectorSearchResult.score results)"
    if h: "(\<forall>x\<in>set (indexDistances resp). \<exists>d. x = Some d \<and> 0 \<le> d) \<and>
             sorted (map the (indexDistances resp))"
  proof -
    have present: "\<exists>d. distance r = Some d \<and> 0 \<le> d" if "r \<in> set results" for r
    proof -
      from that have "distance r \<in> set (map distance results)" by simp
      then have "distance r \<in> set (indexDistances resp)" by (simp only: ds)
      with h show ?thesis by blast
    qed
    from h have "sorted (map the (map distance results))" by (simp only: ds)
    then have srt: "sorted_wrt (\<lambda>x y. the (distance x) \<le> the (distance y)) results"
      by (simp add: sorted_wrt_map comp_def)
    have step: "VectorSearchResult.score y \<le> VectorSearchResult.score x"
      if x: "x \<in> set results" and y: "y \<in> set results"
        and le: "the (distance x) \<le> the (distance y)" for x y
    proof -
      from present [OF x] obtain dx where dx: "distance x = Some dx" "0 \<le> dx" by blast
      from present [OF y] obtain dy where dy: "distance y = Some dy" "0 \<le> dy" by blast
      have "VectorSearchResult.score x = scoreOf (Some dx)"
        and "VectorSearchResult.score y = scoreOf (Some dy)"
        using search_score [OF run x] search_score [OF run y] dx dy by simp_all
      then show ?thesis
        using scoreOf_antimono [of dx dy] dx dy le by simp
    qed
    have "sorted_wrt (\<lambda>x y. VectorSearchResult.score x \<ge> VectorSearchResult.score y) results"
    proof (rule sorted_wrt_mono_rel [OF _ srt])
      fix x y
      assume "x \<in> set results" and "y \<in> set results"
        and "the (distance x) \<le> the (distance y)"
      then show "VectorSearchResult.score x \<ge> VectorSearchResult.score y" by (rule step)
    qed
    then show ?thesis by (simp add: sorted_wrt_map)
  qed
  show "\<exists>c queryEmbedding w1 resp.
            collection vs = Some c \<and>
            collection_query svc c queryEmbedding
               (case VectorSearchOptions.topK options' of Some k \<Rightarrow> k | None \<Rightarrow> 5)
               (filter options') w1 = (Inr resp, w') \<and>
            map (\<lambda>r. VectorDocument.id (document r)) results = indexIds resp \<and>
            map distance results = indexDistances resp \<and>
            ((\<forall>x\<in>set (indexDistances resp). \<exists>d. x = Some d \<and> 0 \<le> d) \<and>
             sorted (map the (indexDistances resp)) \<longrightarrow>
               sorted_wrt (\<ge>) (map VectorSearchResult.score results))"
    using c q ids' ds ordered by blast
qed

theorem C2_score_nonincreasing_in_distance_witness:
  "search (sample_services sample_response sample_message) \<lparr>collection = Some ''bankin_crm_data''\<rparr>
      ''VIP'' \<lparr>VectorSearchOptions.topK = Some 5, filter = None\<rparr> []
     = (Inr (formatResults sample_response), []) \<and>
   indexDistances sample_response = [Some 0, Some 1, Some 3] \<and>
   map distance (formatResults sample_response) = [Some 0, Some 1, Some 3] \<and>
   map VectorSearchResult.score (formatResults sample_response) = [1, 1 / 2, 1 / 4] \<and>
   sorted_wrt (\<ge>) (map VectorSearchResult.score (formatResults sample_response))"
proof -
  note run = sample_search [of sample_response sample_message]
  from C2_score_nonincreasing_in_distance [OF run]
  obtain c queryEmbedding w1 resp where
    q: "collection_query (sample_services sample_response sample_message) c queryEmbedding
          (case VectorSearchOptions.topK \<lparr>VectorSearchOptions.topK = Some 5, filter = None\<rparr> of
             Some k \<Rightarrow> k | None \<Rightarrow> 5)
          (filter \<lparr>VectorSearchOptions.topK = Some 5, filter = None\<rparr>) w1 = (Inr resp, [])"
    and ordered: "(\<forall>x\<in>set (indexDistances resp). \<exists>d. x = Some d \<and> 0 \<le> d) \<and>
             sorted (map the (indexDistances resp)) \<longrightarrow>
               sorted_wrt (\<ge>) (map VectorSearchResult.score (formatResults sample_response))"
    by blast
  from q have resp: "resp = sample_response" by (simp add: sample_services_def)
  have "(\<forall>x\<in>set (indexDistances sample_response). \<exists>d. x = Some d \<and> 0 \<le> d) \<and>
      sorted (map the (indexDistances sample_response))"
    by (simp add: sample_indexDistances)
  with ordered resp
  have "sorted_wrt (\<ge>) (map VectorSearchResult.score (formatResults sample_response))"
    by simp
  with run sample_formatResults sample_indexDistances(1) show ?thesis by simp
qed

subsection \<open>Filtering by the threshold\<close>

lemma sum_list_lower:
  fixes xs :: "real list"
  shows "(\<forall>x\<in>set xs. t \<le> x) \<Longrightarrow> t * real (length xs) \<le> sum_list xs"
  by (induction xs) (auto simp: algebra_simps)

lemma sum_list_upper:
  fixes xs :: "real list"
  shows "(\<forall>x\<in>set xs. x \<le> t) \<Longrightarrow> sum_list xs \<le> t * real (length xs)"
  by (induction xs) (auto simp: algebra_simps)

lemma sum_list_partition:
  fixes xs :: "real list"
  shows "sum_list xs = sum_list (List.filter P xs) + sum_list (List.filter (\<lambda>x. \<not> P x) xs)"
  by (induction xs) auto

lemma length_partition:
  "length xs = length (List.filter P xs) + length (List.filter (\<lambda>x. \<not> P x) xs)"
  by (induction xs) auto

lemma mean_upper_part:
  fixes xs :: "real list"
  assumes ne: "List.filter (\<lambda>x. t \<le> x) xs \<noteq> []"
  shows "sum_list xs / real (length xs)
           \<le> sum_list (List.filter (\<lambda>x. t \<le> x) xs) / real (length (List.filter (\<lambda>x. t \<le> x) xs))"
proof -
  let ?A = "List.filter (\<lambda>x. t \<le> x) xs"
  let ?C = "List.filter (\<lambda>x. \<not> t \<le> x) xs"
  define a where "a = real (length ?A)"
  define c where "c = real (length ?C)"
  have a_pos: "0 < a" using ne by (simp add: a_def)
  have c_nonneg: "0 \<le> c" by (simp add: c_def)
  have sA: "t * a \<le> sum_list ?A" unfolding a_def by (rule sum_list_lower) simp
  have sC: "sum_list ?C \<le> t * c" unfolding c_def by (rule sum_list_upper) auto
  have len: "real (length xs) = a + c"
    unfolding a_def c_def using length_partition [of xs "\<lambda>x. t \<le> x"] by simp
  have sum: "sum_list xs = sum_list ?A + sum_list ?C"
    by (rule sum_list_partition)
  have "sum_list ?C * a \<le> (t * c) * a"
    using sC a_pos by (simp add: mult_right_mono)
  also have "\<dots> = (t * a) * c" by simp
  also have "\<dots> \<le> sum_list ?A * c"
    using sA c_nonneg by (simp add: mult_right_mono)
  finally have cross: "sum_list ?C * a \<le> sum_list ?A * c" .
  have "(sum_list ?A + sum_list ?C) * a \<le> sum_list ?A * (a + c)"
    using cross by (simp add: algebra_simps)
  then have "(sum_list ?A + sum_list ?C) / (a + c) \<le> sum_list ?A / a"
    using a_pos c_nonneg by (simp add: field_simps)
  then show ?thesis
    using sum len a_def by simp
qed

lemma filter_filter_le:
  fixes xs :: "real list"
  assumes "t1 \<le> t2"
  shows "List.filter (\<lambda>x. t2 \<le> x) (List.filter (\<lambda>x. t1 \<le> x) xs) = List.filter (\<lambda>x. t2 \<le> x) xs"
  using assms by (induction xs) auto

lemma scores_filteredSources:
  "map SearchSource.score (filteredSources t found)
     = List.filter (\<lambda>x. t \<le> x) (map VectorSearchResult.score found)"
  by (induction found) (simp_all add: filteredSources_def filteredResults_def toSearchSource_def)

lemma sample_sums:
  "plus64 0 sample_07 = sample_07"
  "plus64 sample_07 sample_07 = 3152519739159347 / 2 ^ 51"
  "plus64 (3152519739159347 / 2 ^ 51) sample_07 = 1182194902184755 / 2 ^ 49"
  "plus64 (1182194902184755 / 2 ^ 49) sample_07 = 3152519739159347 / 2 ^ 50"
  "plus64 (3152519739159347 / 2 ^ 50) sample_07 = 7 / 2"
  "plus64 (7 / 2) sample_07_below = 4728779608739021 / 2 ^ 50"
  "divide64 (7 / 2) 5 = sample_07"
  "divide64 (4728779608739021 / 2 ^ 50) 6 = 6305039478318695 / 2 ^ 53"
proof -
  show "plus64 0 sample_07 = sample_07"
    using binary64_eval_normal [of "3152519739159347 / 2 ^ 52" "- 1"]
    by (simp add: plus64_def sample_07_def rne_def)
  show "plus64 sample_07 sample_07 = 3152519739159347 / 2 ^ 51"
    using binary64_eval_normal [of "3152519739159347 / 2 ^ 52 + 3152519739159347 / 2 ^ 52" 0]
    by (simp add: plus64_def sample_07_def rne_def)
  show "plus64 (3152519739159347 / 2 ^ 51) sample_07 = 1182194902184755 / 2 ^ 49"
    using binary64_eval_normal [of "3152519739159347 / 2 ^ 51 + 3152519739159347 / 2 ^ 52" 1]
    by (simp add: plus64_def sample_07_def rne_def)
  show "plus64 (1182194902184755 / 2 ^ 49) sample_07 = 3152519739159347 / 2 ^ 50"
    using binary64_eval_normal [of "1182194902184755 / 2 ^ 49 + 3152519739159347 / 2 ^ 52" 1]
    by (simp add: plus64_def sample_07_def rne_def)
  show "plus64 (3152519739159347 / 2 ^ 50) sample_07 = 7 / 2"
    using binary64_eval_normal [of "3152519739159347 / 2 ^ 50 + 3152519739159347 / 2 ^ 52" 1]
    by (simp add: plus64_def sample_07_def rne_def)
  show "plus64 (7 / 2) sample_07_below = 4728779608739021 / 2 ^ 50"
    using binary64_eval_normal [of "7 / 2 + 6305039478318693 / 2 ^ 53" 2]
    by (simp add: plus64_def sample_07_below_def rne_def)
  show "divide64 (7 / 2) 5 = sample_07"
    using binary64_eval_normal [of "7 / 2 / 5" "- 1"]
    by (simp add: divide64_def sample_07_def rne_def)
  show "divide64 (4728779608739021 / 2 ^ 50) 6 = 6305039478318695 / 2 ^ 53"
    using binary64_eval_normal [of "4728779608739021 / 2 ^ 50 / 6" "- 1"]
    by (simp add: divide64_def rne_def)
qed

lemma sample_comparisons:
  "1 / 2 \<le> sample_07" "1 / 2 \<le> sample_07_below" "\<not> sample_07 \<le> sample_07_below"
  "sample_07 \<le> 1" "6305039478318695 / 2 ^ 53 \<le> (1::real)"
  "\<not> 6305039478318695 / 2 ^ 53 \<le> sample_07"
  by (simp_all add: sample_07_def sample_07_below_def)

lemma sample_found6_kept:
  "filteredSources (1 / 2) sample_found6 = map toSearchSource sample_found6"
  "filteredSources sample_07 sample_found6 = map toSearchSource (take 5 sample_found6)"
  by (simp_all add: filteredSources_def filteredResults_def sample_found6_def sample_scored_def
        sample_07_def sample_07_below_def)

lemma sample_found6_confidences:
  "calculateConfidence (filteredSources (1 / 2) sample_found6) = 6305039478318695 / 2 ^ 53"
  "calculateConfidence (filteredSources sample_07 sample_found6) = sample_07"
  "length (filteredSources sample_07 sample_found6) = 5"
proof -
  have "calculateConfidence (filteredSources (1 / 2) sample_found6)
      = min (divide64 (plus64 (plus64 (plus64 (plus64 (plus64 (plus64 0 sample_07) sample_07)
               sample_07) sample_07) sample_07) sample_07_below) 6) 1"
    by (simp only: sample_found6_kept)
       (simp add: calculateConfidence_def toSearchSource_def sample_found6_def
          sample_scored_def)
  also have "\<dots> = min (6305039478318695 / 2 ^ 53) 1" by (simp only: sample_sums)
  also have "\<dots> = 6305039478318695 / 2 ^ 53" using sample_comparisons(5) by (rule min_absorb1)
  finally show "calculateConfidence (filteredSources (1 / 2) sample_found6)
      = 6305039478318695 / 2 ^ 53" .
  have "calculateConfidence (filteredSources sample_07 sample_found6)
      = min (divide64 (plus64 (plus64 (plus64 (plus64 (plus64 0 sample_07) sample_07)
               sample_07) sample_07) sample_07) 5) 1"
    by (simp only: sample_found6_kept)
       (simp add: calculateConfidence_def toSearchSource_def sample_found6_def
          sample_scored_def)
  also have "\<dots> = min sample_07 1" by (simp only: sample_sums)
  also have "\<dots> = sample_07" using sample_comparisons(4) by (rule min_absorb1)
  finally show "calculateConfidence (filteredSources sample_07 sample_found6) = sample_07" .
  show "length (filteredSources sample_07 sample_found6) = 5"
    by (simp only: sample_found6_kept) (simp add: sample_found6_def)
qed

lemma sample_single_confidences:
  "calculateConfidence (filteredSources (1 / 4) [sample_scored (1 / 2)]) = 1 / 2"
  "calculateConfidence (filteredSources (3 / 4) [sample_scored (1 / 2)]) = 0"
proof -
  have s: "plus64 0 (1 / 2) = 1 / 2" by (simp add: plus64_def binary64_samples)
  have q: "divide64 (1 / 2) 1 = 1 / 2" by (simp add: divide64_def binary64_samples)
  have "calculateConfidence (filteredSources (1 / 4) [sample_scored (1 / 2)])
      = min (divide64 (plus64 0 (1 / 2)) 1) 1"
    by (simp add: calculateConfidence_def filteredSources_def filteredResults_def
          toSearchSource_def sample_scored_def)
  also have "\<dots> = 1 / 2" by (simp only: s q)
  finally show "calculateConfidence (filteredSources (1 / 4) [sample_scored (1 / 2)]) = 1 / 2" .
  show "calculateConfidence (filteredSources (3 / 4) [sample_scored (1 / 2)]) = 0"
    by (simp add: calculateConfidence_def filteredSources_def filteredResults_def
          sample_scored_def)
qed

text \<open>C3, as stated: for thresholds \<open>t1 \<le> t2\<close> the confidence of the results kept at \<open>t2\<close> is at
  least the confidence of those kept at \<open>t1\<close>. It fails when the higher threshold keeps
  nothing: one result of score 0.5 has confidence 0.5 at threshold 0.25 and confidence 0 at
  threshold 0.75. It also fails by rounding when results are kept: of five results of
  score 0.7 and one of score 0.6999999999999998, the threshold 0.7 keeps the five, with
  confidence 0.7, and the threshold 0.5 keeps all six, with the confidence one unit in the
  last place above 0.7.\<close>

theorem C3_counterexample:
  "calculateConfidence (filteredSources (1 / 4) [sample_scored (1 / 2)]) = 1 / 2 \<and>
   calculateConfidence (filteredSources (3 / 4) [sample_scored (1 / 2)]) = 0 \<and>
   \<not> calculateConfidence (filteredSources (1 / 4) [sample_scored (1 / 2)])
      \<le> calculateConfidence (filteredSources (3 / 4) [sample_scored (1 / 2)]) \<and>
   length (filteredSources sample_07 sample_found6) = 5 \<and>
   calculateConfidence (filteredSources (1 / 2) sample_found6) = 6305039478318695 / 2 ^ 53 \<and>
   calculateConfidence (filteredSources sample_07 sample_found6) = sample_07 \<and>
   sample_07 = 6305039478318694 / 2 ^ 53 \<and>
   \<not> calculateConfidence (filteredSources (1 / 2) sample_found6)
      \<le> calculateConfidence (filteredSources sample_07 sample_found6)"
proof (intro conjI)
  show "calculateConfidence (filteredSources (1 / 4) [sample_scored (1 / 2)]) = 1 / 2"
    by (rule sample_single_confidences)
  show "calculateConfidence (filteredSources (3 / 4) [sample_scored (1 / 2)]) = 0"
    by (rule sample_single_confidences)
  show "\<not> calculateConfidence (filteredSources (1 / 4) [sample_scored (1 / 2)])
      \<le> calculateConfidence (filteredSources (3 / 4) [sample_scored (1 / 2)])"
    by (simp only: sample_single_confidences)
  show "length (filteredSources sample_07 sample_found6) = 5"
    by (rule sample_found6_confidences)
  show "calculateConfidence (filteredSources (1 / 2) sample_found6) = 6305039478318695 / 2 ^ 53"
    by (rule sample_found6_confidences)
  show "calculateConfidence (filteredSources sample_07 sample_found6) = sample_07"
    by (rule sample_found6_confidences)
  show "sample_07 = 6305039478318694 / 2 ^ 53" by (simp add: sample_07_def)
  show "\<not> calculateConfidence (filteredSources (1 / 2) sample_found6)
      \<le> calculateConfidence (filteredSources sample_07 sample_found6)"
    using sample_comparisons(6) by (simp only: sample_found6_confidences not_False_eq_True)
qed

text \<open>C3, amended: for thresholds \<open>t1 \<le> t2\<close> and results with scores in \<open>[0, 1]\<close>, when at least
  one result has a score of at least \<open>t2\<close> the confidence at \<open>t2\<close> is at least the confidence
  at \<open>t1\<close> up to rounding: it is not below it by more than \<open>(n + 3) / 2 ^ 53\<close>, \<open>n\<close> the number
  of results (below \<open>2 ^ 53\<close>); when no result has such a score, the confidence at \<open>t2\<close> is
  exactly 0.\<close>

theorem C3_confidence_monotone_up_to_rounding:
  assumes le: "t1 \<le> t2"
    and unit: "\<forall>result\<in>set found. 0 \<le> VectorSearchResult.score result \<and>
                 VectorSearchResult.score result \<le> 1"
    and len: "length found < 2 ^ 53"
  shows "if \<exists>result\<in>set found. t2 \<le> VectorSearchResult.score result
         then calculateConfidence (filteredSources t1 found)
                \<le> calculateConfidence (filteredSources t2 found)
                    + (real (length found) + 3) / 2 ^ 53
         else calculateConfidence (filteredSources t2 found) = 0"
proof (cases "\<exists>result\<in>set found. t2 \<le> VectorSearchResult.score result")
  case False
  then have "filteredSources t2 found = []"
    by (auto simp: filteredSources_def filteredResults_def filter_empty_conv)
  with False show ?thesis by (simp add: calculateConfidence_def)
next
  case True
  let ?xs = "map VectorSearchResult.score found"
  let ?B = "List.filter (\<lambda>x. t1 \<le> x) ?xs"
  let ?A = "List.filter (\<lambda>x. t2 \<le> x) ?xs"
  let ?n = "real (length found)"
  have A: "?A = List.filter (\<lambda>x. t2 \<le> x) ?B"
    using filter_filter_le [OF le, of ?xs] by simp
  from True have neA: "?A \<noteq> []"
    by (auto simp: filter_empty_conv)
  then have neA': "List.filter (\<lambda>x. t2 \<le> x) ?B \<noteq> []" using A by simp
  have neB: "?B \<noteq> []"
  proof
    assume "?B = []"
    then have "List.filter (\<lambda>x. t2 \<le> x) ?B = []" by (simp only: filter.simps)
    with neA' show False by contradiction
  qed
  have means: "sum_list ?B / real (length ?B) \<le> sum_list ?A / real (length ?A)"
    using mean_upper_part [OF neA'] A by simp
  have kept: "map SearchSource.score (filteredSources t found) = List.filter (\<lambda>x. t \<le> x) ?xs"
    for t by (rule scores_filteredSources)
  have lenle: "length (List.filter (\<lambda>x. t \<le> x) ?xs) \<le> length found" for t
    using length_filter_le [of "\<lambda>x. t \<le> x" ?xs] by simp
  have err: "\<bar>calculateConfidence (filteredSources t found)
               - sum_list (List.filter (\<lambda>x. t \<le> x) ?xs)
                   / real (length (List.filter (\<lambda>x. t \<le> x) ?xs))\<bar>
             \<le> (?n + 3) / 2 ^ 54"
    if ne: "List.filter (\<lambda>x. t \<le> x) ?xs \<noteq> []" for t
  proof -
    let ?srcs = "filteredSources t found"
    have l: "length ?srcs = length (List.filter (\<lambda>x. t \<le> x) ?xs)"
      using kept [of t] by (metis length_map)
    have ll: "length ?srcs \<le> length found"
      by (simp add: filteredSources_def filteredResults_def)
    have "?srcs \<noteq> []" using ne kept [of t] by auto
    moreover have "length ?srcs < 2 ^ 53" using ll len by simp
    moreover have "\<forall>src\<in>set ?srcs. 0 \<le> SearchSource.score src \<and> SearchSource.score src \<le> 1"
      using unit by (auto simp: filteredSources_def filteredResults_def toSearchSource_def)
    ultimately have "\<bar>calculateConfidence ?srcs
        - sum_list (map SearchSource.score ?srcs) / real (length ?srcs)\<bar>
          \<le> (real (length ?srcs) + 3) / 2 ^ 54"
      by (rule calculateConfidence_error)
    then have e1: "\<bar>calculateConfidence ?srcs
        - sum_list (List.filter (\<lambda>x. t \<le> x) ?xs)
            / real (length (List.filter (\<lambda>x. t \<le> x) ?xs))\<bar>
          \<le> (real (length ?srcs) + 3) / 2 ^ 54"
      by (simp only: kept l [symmetric])
    have e2: "(real (length ?srcs) + 3) / 2 ^ 54 \<le> (?n + 3) / 2 ^ 54"
      using ll by (simp add: divide_right_mono)
    from e1 e2 show ?thesis by (rule order_trans)
  qed
  from err [OF neB] err [OF neA] means
  have "calculateConfidence (filteredSources t1 found)
          \<le> calculateConfidence (filteredSources t2 found) + 2 * ((?n + 3) / 2 ^ 54)"
    by linarith
  moreover have "2 * ((?n + 3) / 2 ^ 54) = (?n + 3) / 2 ^ 53" by simp
  ultimately have "calculateConfidence (filteredSources t1 found)
                \<le> calculateConfidence (filteredSources t2 found) + (?n + 3) / 2 ^ 53"
    by (simp only:)
  with True show ?thesis by simp
qed

theorem C3_confidence_monotone_up_to_rounding_witness:
  "(1 / 8 :: real) \<le> 3 / 8 \<and>
   (\<exists>result\<in>set [sample_scored (1 / 2), sample_scored (1 / 4)].
       3 / 8 \<le> VectorSearchResult.score result) \<and>
   calculateConfidence (filteredSources (1 / 8) [sample_scored (1 / 2), sample_scored (1 / 4)])
     \<le> calculateConfidence (filteredSources (3 / 8) [sample_scored (1 / 2), sample_scored (1 / 4)])
         + 5 / 2 ^ 53"
proof -
  let ?found = "[sample_scored (1 / 2), sample_scored (1 / 4)]"
  have le: "(1 / 8 :: real) \<le> 3 / 8" by simp
  have unit: "\<forall>result\<in>set ?found. 0 \<le> VectorSearchResult.score result \<and>
                 VectorSearchResult.score result \<le> 1"
    by (simp add: sample_scored_def)
  have len: "length ?found < 2 ^ 53" by simp
  have ex: "\<exists>result\<in>set ?found. 3 / 8 \<le> VectorSearchResult.score result"
    by (simp add: sample_scored_def)
  from C3_confidence_monotone_up_to_rounding [OF le unit len] ex
  have "calculateConfidence (filteredSources (1 / 8) ?found)
     \<le> calculateConfidence (filteredSources (3 / 8) ?found) + (real (length ?found) + 3) / 2 ^ 53"
    by (simp only: if_True)
  with le ex show ?thesis by simp
qed

text \<open>C4: a result whose score equals \<^verbatim>\<open>minScore\<close> is kept by the filter of \<^verbatim>\<open>query\<close>, and its
  reshaped source is among the sources, for every list of results and every threshold.\<close>

theorem C4_threshold_inclusive:
  "result \<in> set found \<Longrightarrow> VectorSearchResult.score result = minScore' \<Longrightarrow>
     result \<in> set (filteredResults minScore' found) \<and>
     toSearchSource result \<in> set (filteredSources minScore' found)"
  by (simp add: filteredResults_def filteredSources_def)

theorem C4_threshold_inclusive_witness:
  "sample_result ''a'' 1 \<in> set [sample_result ''b'' 0, sample_result ''a'' 1] \<and>
   VectorSearchResult.score (sample_result ''a'' 1) = 0.5 \<and>
   sample_result ''a'' 1 \<in> set (filteredResults 0.5 [sample_result ''b'' 0, sample_result ''a'' 1]) \<and>
   toSearchSource (sample_result ''a'' 1)
     \<in> set (filteredSources 0.5 [sample_result ''b'' 0, sample_result ''a'' 1])"
proof -
  have mem: "sample_result ''a'' 1 \<in> set [sample_result ''b'' 0, sample_result ''a'' 1]" by simp
  have eq: "VectorSearchResult.score (sample_result ''a'' 1) = 0.5"
    by (simp add: sample_result_def)
  from C4_threshold_inclusive [OF mem eq] mem eq show ?thesis by simp
qed

lemma filteredSources_score:
  "s \<in> set (filteredSources t found) \<Longrightarrow> t \<le> SearchSource.score s"
  by (auto simp: filteredSources_def filteredResults_def toSearchSource_def)

lemma sample_short_third:
  "formatResults sample_response_short ! 2 \<in> set (formatResults sample_response_short) \<and>
   distance (formatResults sample_response_short ! 2) = None"
  by (simp add: formatResults_def sample_response_short_def searchResultAt_def at0_def scoreOf_def
        upt_rec)

text \<open>C8: a result of \<^verbatim>\<open>search\<close> whose raw distance is absent has score exactly 0, which is the
  least score among the results whose distances are absent or non-negative; so every
  strictly positive \<^verbatim>\<open>minScore\<close> drops it from the filtered results and from the sources.\<close>

theorem C8_absent_distance_scores_zero:
  assumes run: "search svc vs query' options' w = (Inr results, w')"
    and r: "r \<in> set results" and absent: "distance r = None"
  shows "VectorSearchResult.score r = 0 \<and>
         (\<forall>r'\<in>set results. (\<forall>d. distance r' = Some d \<longrightarrow> 0 \<le> d) \<longrightarrow>
            VectorSearchResult.score r \<le> VectorSearchResult.score r') \<and>
         (\<forall>minScore'. 0 < minScore' \<longrightarrow>
            r \<notin> set (filteredResults minScore' results) \<and>
            toSearchSource r \<notin> set (filteredSources minScore' results))"
proof (intro conjI)
  show zero: "VectorSearchResult.score r = 0"
    using search_score [OF run r] absent by (simp add: scoreOf_def)
  show "\<forall>r'\<in>set results. (\<forall>d. distance r' = Some d \<longrightarrow> 0 \<le> d) \<longrightarrow>
            VectorSearchResult.score r \<le> VectorSearchResult.score r'"
  proof (intro ballI impI)
    fix r' assume r': "r' \<in> set results" and nn: "\<forall>d. distance r' = Some d \<longrightarrow> 0 \<le> d"
    have "0 \<le> scoreOf (distance r')"
    proof (cases "distance r'")
      case None then show ?thesis by (simp add: scoreOf_def)
    next
      case (Some d) with nn show ?thesis by (simp add: scoreOf_bounds(2))
    qed
    then show "VectorSearchResult.score r \<le> VectorSearchResult.score r'"
      using zero search_score [OF run r'] by simp
  qed
  show "\<forall>minScore'. 0 < minScore' \<longrightarrow>
            r \<notin> set (filteredResults minScore' results) \<and>
            toSearchSource r \<notin> set (filteredSources minScore' results)"
  proof (intro allI impI conjI)
    fix t :: real assume t: "0 < t"
    show "r \<notin> set (filteredResults t results)"
      using zero t by (simp add: filteredResults_def)
    show "toSearchSource r \<notin> set (filteredSources t results)"
    proof
      assume "toSearchSource r \<in> set (filteredSources t results)"
      then have "t \<le> SearchSource.score (toSearchSource r)" by (rule filteredSources_score)
      with zero t show False by (simp add: toSearchSource_def)
    qed
  qed
qed

theorem C8_absent_distance_scores_zero_witness:
  "search (sample_services sample_response_short sample_message)
      \<lparr>collection = Some ''bankin_crm_data''\<rparr> ''VIP''
      \<lparr>VectorSearchOptions.topK = Some 5, filter = None\<rparr> []
     = (Inr (formatResults sample_response_short), []) \<and>
   formatResults sample_response_short ! 2 \<in> set (formatResults sample_response_short) \<and>
   distance (formatResults sample_response_short ! 2) = None \<and>
   VectorSearchResult.score (formatResults sample_response_short ! 2) = 0 \<and>
   formatResults sample_response_short ! 2
     \<notin> set (filteredResults 0.5 (formatResults sample_response_short))"
proof -
  note run = sample_search [of sample_response_short sample_message]
  from sample_short_third have mem: "formatResults sample_response_short ! 2 \<in> set (formatResults sample_response_short)"
    and absent: "distance (formatResults sample_response_short ! 2) = None" by simp_all
  from C8_absent_distance_scores_zero [OF run mem absent]
  have "VectorSearchResult.score (formatResults sample_response_short ! 2) = 0"
    and "\<forall>minScore'. 0 < minScore' \<longrightarrow>
            formatResults sample_response_short ! 2
              \<notin> set (filteredResults minScore' (formatResults sample_response_short))"
    by blast+
  then have "VectorSearchResult.score (formatResults sample_response_short ! 2) = 0"
    and "formatResults sample_response_short ! 2
              \<notin> set (filteredResults 0.5 (formatResults sample_response_short))"
    by simp_all
  with run mem absent show ?thesis by simp
qed

subsection \<open>Adding documents\<close>

lemma initialize_collection:
  "initialize svc vs0 w0 = (Inr vs, w1) \<Longrightarrow> collection vs \<noteq> None"
  by (auto simp: initialize_def split: prod.splits sum.splits)

lemma sample_initialize:
  "initialize (sample_services resp msg) \<lparr>collection = None\<rparr> [] =
     (Inr \<lparr>collection = Some ''bankin_crm_data''\<rparr>, [])"
  by (simp add: initialize_def sample_services_def)

text \<open>C9: without a collection \<^verbatim>\<open>addDocuments\<close> throws the not-initialised error for every list
  of documents, the empty list included, since the check comes before the early return; with
  a collection, in particular after a successful \<^verbatim>\<open>initialize\<close>, the empty list is a no-op
  that leaves the outside world as it was.\<close>

theorem C9_addDocuments_check_first:
  "(collection vs = None \<longrightarrow> addDocuments svc vs docs w = (Inl CollectionNotInitialized, w)) \<and>
   (collection vs = None \<longrightarrow> addDocuments svc vs [] w = (Inl CollectionNotInitialized, w)) \<and>
   (collection vs \<noteq> None \<longrightarrow> addDocuments svc vs [] w = (Inr (), w)) \<and>
   (initialize svc vs0 w0 = (Inr vs, w1) \<longrightarrow> addDocuments svc vs [] w = (Inr (), w))"
  using initialize_collection [of svc vs0 w0 vs w1]
  by (auto simp: addDocuments_def split: option.splits)

theorem C9_addDocuments_check_first_witness:
  "collection \<lparr>collection = (None :: string option)\<rparr> = None \<and>
   addDocuments (sample_services sample_response sample_message) \<lparr>collection = None\<rparr> [] []
     = (Inl CollectionNotInitialized, []) \<and>
   initialize (sample_services sample_response sample_message) \<lparr>collection = None\<rparr> []
     = (Inr \<lparr>collection = Some ''bankin_crm_data''\<rparr>, []) \<and>
   addDocuments (sample_services sample_response sample_message)
      \<lparr>collection = Some ''bankin_crm_data''\<rparr> [] [] = (Inr (), [])"
  using C9_addDocuments_check_first
          [of "\<lparr>collection = None\<rparr>" "sample_services sample_response sample_message" "[]" "[]"
              "\<lparr>collection = None\<rparr>" "[]" "[]"]
        C9_addDocuments_check_first
          [of "\<lparr>collection = Some ''bankin_crm_data''\<rparr>"
              "sample_services sample_response sample_message" "[]" "[]"
              "\<lparr>collection = None\<rparr>" "[]" "[]"]
        sample_initialize [of sample_response sample_message]
  by simp

subsection \<open>Bulk ingestion\<close>

lemma ingestBulk_loop_total:
  "\<exists>result st'. ingestBulk_loop svc rt requests acc st = (Inr result, st') \<and>
      BulkResult.total result = BulkResult.total acc + sum_list (map countOf (ingestOutcomes svc rt requests st))"
proof (induction requests arbitrary: acc st)
  case Nil
  show ?case by simp
next
  case (Cons request rest)
  obtain r st1 where step: "ingestFromSource svc rt request st = (r, st1)"
    by (cases "ingestFromSource svc rt request st")
  show ?case
  proof (cases r)
    case (Inl e)
    from Cons.IH [of acc st1] step Inl show ?thesis by simp
  next
    case (Inr count)
    let ?acc = "\<lparr>total = total acc + count,
                 byType = (byType acc)(dataType request \<mapsto>
                   (case byType acc (dataType request) of Some n \<Rightarrow> n | None \<Rightarrow> 0) + count)\<rparr>"
    from Cons.IH [of ?acc st1] step Inr show ?thesis by (auto simp: add.assoc)
  qed
qed

lemma length_ingestOutcomes:
  "length (ingestOutcomes svc rt requests st) = length requests"
  by (induction requests arbitrary: st) (simp_all split: prod.splits)

text \<open>C5: \<^verbatim>\<open>ingestBulk\<close> returns for every list of requests and never throws; every source is
  processed, and the total is the sum of the counts of the sources that succeeded, a source
  that threw adding nothing.\<close>

theorem C5_ingestBulk_total:
  "\<exists>result st'. ingestBulk svc rt requests st = (Inr result, st') \<and>
      BulkResult.total result = sum_list (map countOf (ingestOutcomes svc rt requests st)) \<and>
      length (ingestOutcomes svc rt requests st) = length requests"
  using ingestBulk_loop_total [of svc rt requests "\<lparr>total = 0, byType = Map.empty\<rparr>" st]
  by (simp add: ingestBulk_def length_ingestOutcomes)

text \<open>The example given with C5: of three sources the second, an Excel file, throws; the other
  two hold two records and one record, and the total is 3.\<close>

lemmas sample_ingest_simps =
  ingestFromSource_def ingestFromSource_body_def loadData_def toDocument_def
  convertToText_def naturalKey_def getVectorStore_def initialize_def addDocuments_def
  generateEmbedding_def sample_services_def sample_state_def sample_requests_def
  sample_customer_def sample_customer2_def

lemma sample_ingestOutcomes:
  "ingestOutcomes (sample_services sample_response sample_message) sample_runtime sample_requests
      sample_state = [Inr 2, Inl IngestFailed, Inr 1]"
  by (simp add: sample_ingest_simps)

lemma sample_ingestBulk:
  "ingestBulk (sample_services sample_response sample_message) sample_runtime sample_requests
      sample_state =
     (Inr \<lparr>total = 3, byType = [''customer'' \<mapsto> 3]\<rparr>,
      \<lparr>vectorStoreInstance = Some \<lparr>collection = Some ''bankin_crm_data''\<rparr>,
       world = [''customer_C1'', ''customer_C2'', ''customer_C1'']\<rparr>)"
  by (simp add: ingestBulk_def sample_ingest_simps numeral_3_eq_3)

subsection \<open>The answer of a query\<close>

lemma extractAnswer_first_block:
  "Message.content response = block # blocks \<Longrightarrow>
     extractAnswer response = Inr (case block of TextBlock text \<Rightarrow> text | OtherBlock _ \<Rightarrow> NO_ANSWER)"
  by (simp add: extractAnswer_def split: ContentBlock.splits)

lemma sample_getVectorStore:
  "getVectorStore (sample_services resp msg) sample_state =
     (Inr \<lparr>collection = Some ''bankin_crm_data''\<rparr>,
      \<lparr>vectorStoreInstance = Some \<lparr>collection = Some ''bankin_crm_data''\<rparr>, world = []\<rparr>)"
  by (simp add: getVectorStore_def initialize_def sample_services_def sample_state_def)

lemma sample_search_any:
  "search (sample_services resp msg) \<lparr>collection = Some ''bankin_crm_data''\<rparr> q
      \<lparr>VectorSearchOptions.topK = Some k, filter = None\<rparr> [] = (Inr (formatResults resp), [])"
  by (simp add: search_def generateEmbedding_def sample_services_def)

lemma sample_messages_create:
  "messages_create (sample_services resp msg) params w = (Inr msg, w)"
  by (simp add: sample_services_def)

text \<open>C6, as stated: the answer is the first text block of the response, and the fixed message
  when the response has no text block, the call returning normally. It fails on a response
  whose first block is not a text block and whose second is the text \<open>ok\<close>: the first text
  block is \<open>ok\<close>, the answer is the fixed message.\<close>

theorem C6_counterexample:
  "spec_firstTextBlock [OtherBlock ''tool_use'', TextBlock ''ok''] = Some ''ok'' \<and>
   map_sum (\<lambda>e. e) answer
     (fst (query (sample_services sample_response
                    \<lparr>Message.content = [OtherBlock ''tool_use'', TextBlock ''ok'']\<rparr>)
             sample_runtime \<lparr>RAGQuery.query = ''VIP'', options = None\<rparr> sample_state))
     = Inr NO_ANSWER \<and>
   NO_ANSWER \<noteq> ''ok''"
proof (intro conjI)
  show "spec_firstTextBlock [OtherBlock ''tool_use'', TextBlock ''ok''] = Some ''ok''"
    by simp
  show "map_sum (\<lambda>e. e) answer
     (fst (query (sample_services sample_response
                    \<lparr>Message.content = [OtherBlock ''tool_use'', TextBlock ''ok'']\<rparr>)
             sample_runtime \<lparr>RAGQuery.query = ''VIP'', options = None\<rparr> sample_state))
     = Inr NO_ANSWER"
    by (simp add: query_def query_body_def sample_getVectorStore sample_search_any
          sample_messages_create extractAnswer_def effectiveTopK_def Let_def)
  show "NO_ANSWER \<noteq> ''ok''"
    by (simp add: NO_ANSWER_def)
qed

text \<open>C6, amended: when retrieval and generation succeed and the response has at least one
  content block, \<^verbatim>\<open>query\<close> returns normally; the answer is the text of the first block when
  that block is a text block and the fixed message otherwise, the sources are the filtered
  results and the confidence is computed from them.\<close>

theorem C6_answer_from_first_block:
  assumes store: "getVectorStore svc st = (Inr vectorStore, st1)"
    and found: "search svc vectorStore (RAGQuery.query queryRequest)
                  \<lparr>VectorSearchOptions.topK = Some (effectiveTopK queryRequest), filter = None\<rparr>
                  (world st1) = (Inr found, w2)"
    and generated: "messages_create svc
                  (createParams (userPrompt
                     (buildContext rt (filteredSources (effectiveMinScore queryRequest) found))
                     (RAGQuery.query queryRequest))) w2 = (Inr response, w3)"
    and blocks: "Message.content response = block # blocks"
  shows "query svc rt queryRequest st =
           (Inr \<lparr>answer = (case block of TextBlock text \<Rightarrow> text | OtherBlock _ \<Rightarrow> NO_ANSWER),
                 sources = filteredSources (effectiveMinScore queryRequest) found,
                 confidence =
                   calculateConfidence (filteredSources (effectiveMinScore queryRequest) found)\<rparr>,
            st1\<lparr>world := w3\<rparr>)"
  using store found generated extractAnswer_first_block [OF blocks]
  by (simp add: query_def query_body_def Let_def)

theorem C6_answer_from_first_block_witness:
  "Message.content sample_message = TextBlock ''ok'' # [] \<and>
   fst (query (sample_services sample_response sample_message) sample_runtime
          \<lparr>RAGQuery.query = ''VIP'', options = None\<rparr> sample_state) =
     Inr \<lparr>answer = ''ok'',
          sources = filteredSources 0.5 (formatResults sample_response),
          confidence = calculateConfidence (filteredSources 0.5 (formatResults sample_response))\<rparr>"
proof -
  let ?svc = "sample_services sample_response sample_message"
  let ?req = "\<lparr>RAGQuery.query = ''VIP'', options = None\<rparr>"
  have blocks: "Message.content sample_message = TextBlock ''ok'' # []"
    by (simp add: sample_message_def)
  have store: "getVectorStore ?svc sample_state =
     (Inr \<lparr>collection = Some ''bankin_crm_data''\<rparr>,
      \<lparr>vectorStoreInstance = Some \<lparr>collection = Some ''bankin_crm_data''\<rparr>, world = []\<rparr>)"
    by (rule sample_getVectorStore)
  have found: "search ?svc \<lparr>collection = Some ''bankin_crm_data''\<rparr> (RAGQuery.query ?req)
       \<lparr>VectorSearchOptions.topK = Some (effectiveTopK ?req), filter = None\<rparr>
       (world \<lparr>vectorStoreInstance = Some \<lparr>collection = Some ''bankin_crm_data''\<rparr>, world = []\<rparr>)
       = (Inr (formatResults sample_response), [])"
    using sample_search_any [of sample_response sample_message "''VIP''" "effectiveTopK ?req"]
    by simp
  have generated: "messages_create ?svc
       (createParams (userPrompt
          (buildContext sample_runtime
             (filteredSources (effectiveMinScore ?req) (formatResults sample_response)))
          (RAGQuery.query ?req))) [] = (Inr sample_message, [])"
    by (rule sample_messages_create)
  from C6_answer_from_first_block [OF store found generated blocks] blocks
  show ?thesis by (simp add: effectiveMinScore_def)
qed

text \<open>On a response with no content block the read of \<^verbatim>\<open>response.content[0].type\<close> throws
  inside \<^verbatim>\<open>try\<close>, and \<^verbatim>\<open>query\<close> throws its one error.\<close>

lemma query_empty_content_fails:
  "fst (query (sample_services sample_response \<lparr>Message.content = []\<rparr>) sample_runtime
          \<lparr>RAGQuery.query = ''VIP'', options = None\<rparr> sample_state) = Inl RAGQueryFailed"
  by (simp add: query_def query_body_def sample_getVectorStore sample_search_any
        sample_messages_create extractAnswer_def effectiveTopK_def Let_def)

text \<open>What a normal return of \<^verbatim>\<open>query\<close> says about its steps.\<close>

lemma query_Inr:
  assumes "query svc rt queryRequest st = (Inr response, st')"
  shows "\<exists>vectorStore st1 found w2 message w3.
           getVectorStore svc st = (Inr vectorStore, st1) \<and>
           search svc vectorStore (RAGQuery.query queryRequest)
              \<lparr>VectorSearchOptions.topK = Some (effectiveTopK queryRequest), filter = None\<rparr>
              (world st1) = (Inr found, w2) \<and>
           messages_create svc
              (createParams (userPrompt (buildContext rt (sources response))
                 (RAGQuery.query queryRequest))) w2 = (Inr message, w3) \<and>
           extractAnswer message = Inr (answer response) \<and>
           sources response = filteredSources (effectiveMinScore queryRequest) found \<and>
           confidence response = calculateConfidence (sources response)"
  using assms
  by (auto simp: query_def query_body_def Let_def split: prod.splits sum.splits)

subsection \<open>Rendering of records\<close>

lemma split_lines_nonempty: "split_lines s \<noteq> []"
  by (induction s) (auto split: list.splits)

lemma split_lines_append_NL:
  "split_lines (a @ NL @ b) = split_lines a @ split_lines b"
proof (induction a)
  case Nil
  show ?case by (simp add: NL_def)
next
  case (Cons c a)
  obtain l ls where a: "split_lines a = l # ls"
    using split_lines_nonempty [of a] by (cases "split_lines a") auto
  with Cons show ?case by simp
qed

lemma split_lines_single:
  "CHR 0x0A \<notin> set l \<Longrightarrow> split_lines l = [l]"
  by (induction l) auto

lemma line_member:
  assumes "text = a @ NL @ l @ NL @ b" and "CHR 0x0A \<notin> set l"
  shows "l \<in> set (split_lines text)"
proof -
  have "split_lines text = split_lines a @ split_lines l @ split_lines b"
    using assms(1) by (simp add: split_lines_append_NL)
  then show ?thesis using split_lines_single [OF assms(2)] by simp
qed

lemma last_line_empty:
  assumes "text = a @ NL"
  shows "last (split_lines text) = []"
proof -
  have "split_lines text = split_lines a @ split_lines []"
    using assms split_lines_append_NL [of a "[]"] by simp
  then show ?thesis by simp
qed

lemma or_else_absent: "x = None \<or> x = Some [] \<Longrightarrow> or_else x fallback = fallback"
  by (auto simp: or_else_def)

lemma email_marker_no_NL: "CHR 0x0A \<notin> set (L_email @ NASHI)"
  by (simp add: L_email_def NASHI_def)

lemma address_marker_no_NL: "CHR 0x0A \<notin> set (L_address @ NASHI)"
  by (simp add: L_address_def NASHI_def)

lemma customer_markers:
  assumes rendered: "text = customerText rt customer"
  shows "(email customer = None \<or> email customer = Some [] \<longrightarrow>
            L_email @ NASHI \<in> set (split_lines text)) \<and>
         (address customer = None \<or> address customer = Some [] \<longrightarrow>
            L_address @ NASHI \<in> set (split_lines text)) \<and>
         (Customer.notes customer = None \<or> Customer.notes customer = Some [] \<longrightarrow>
            last (split_lines text) = [])"
proof (intro conjI impI)
  assume "email customer = None \<or> email customer = Some []"
  then have "or_else (email customer) NASHI = NASHI" by (rule or_else_absent)
  then have "text =
      (T_customer @ NL @ L_customerId @ Customer.customerId customer @ NL @
       L_name @ name customer @ NL @ L_phone @ phone customer) @ NL @
      (L_email @ NASHI) @ NL @
      (L_address @ or_else (address customer) NASHI @ NL @
       L_totalSales @ toLocaleString rt (totalSales customer) @ YEN @ NL @
       L_visitCount @ numberToString rt (visitCount customer) @ KAI @ NL @
       (if truthy_str (Customer.notes customer) then L_notes @ the (Customer.notes customer)
        else []))"
    by (simp add: rendered customerText_def)
  then show "L_email @ NASHI \<in> set (split_lines text)"
    using email_marker_no_NL by (rule line_member)
next
  assume "address customer = None \<or> address customer = Some []"
  then have "or_else (address customer) NASHI = NASHI" by (rule or_else_absent)
  then have "text =
      (T_customer @ NL @ L_customerId @ Customer.customerId customer @ NL @
       L_name @ name customer @ NL @ L_phone @ phone customer @ NL @
       L_email @ or_else (email customer) NASHI) @ NL @
      (L_address @ NASHI) @ NL @
      (L_totalSales @ toLocaleString rt (totalSales customer) @ YEN @ NL @
       L_visitCount @ numberToString rt (visitCount customer) @ KAI @ NL @
       (if truthy_str (Customer.notes customer) then L_notes @ the (Customer.notes customer)
        else []))"
    by (simp add: rendered customerText_def)
  then show "L_address @ NASHI \<in> set (split_lines text)"
    using address_marker_no_NL by (rule line_member)
next
  assume "Customer.notes customer = None \<or> Customer.notes customer = Some []"
  then have "\<not> truthy_str (Customer.notes customer)" by auto
  then have "text =
      (T_customer @ NL @ L_customerId @ Customer.customerId customer @ NL @
       L_name @ name customer @ NL @ L_phone @ phone customer @ NL @
       L_email @ or_else (email customer) NASHI @ NL @
       L_address @ or_else (address customer) NASHI @ NL @
       L_totalSales @ toLocaleString rt (totalSales customer) @ YEN @ NL @
       L_visitCount @ numberToString rt (visitCount customer) @ KAI) @ NL"
    by (simp add: rendered customerText_def)
  then show "last (split_lines text) = []"
    by (rule last_line_empty)
qed

lemma quote_notes_line:
  assumes absent: "Quote.notes quote = None \<or> Quote.notes quote = Some []"
  shows "last (split_lines (quoteText rt quote)) = []"
proof -
  from absent have "\<not> truthy_str (Quote.notes quote)" by auto
  then have "\<exists>a. quoteText rt quote = a @ NL"
    by (simp add: quoteText_def Let_def flip: append_assoc)
  then show ?thesis using last_line_empty by blast
qed

lemma work_notes_line:
  assumes absent: "WorkHistory.notes work = None \<or> WorkHistory.notes work = Some []"
  shows "last (split_lines (workText rt work)) = []"
proof -
  from absent have "\<not> truthy_str (WorkHistory.notes work)" by auto
  then have "\<exists>a. workText rt work = a @ NL"
    by (simp add: workText_def Let_def flip: append_assoc)
  then show ?thesis using last_line_empty by blast
qed

lemma sample_customerText_lines:
  "split_lines (customerText sample_runtime sample_customer) =
     [T_customer, L_customerId @ ''C1'', L_name @ ''Tanaka'', L_phone @ ''090-0000-0000'',
      L_email @ NASHI, L_address @ NASHI, L_totalSales @ ''500,000'' @ YEN,
      L_visitCount @ ''3'' @ KAI, []]"
  by (simp add: customerText_def sample_runtime_def sample_customer_def or_else_def NL_def
        T_customer_def L_customerId_def L_name_def L_phone_def L_email_def L_address_def
        L_totalSales_def L_visitCount_def YEN_def KAI_def NASHI_def)

text \<open>C7, as stated: every absent optional field is rendered as a line with an explicit
  marker. It fails on the customer with no notes: the rendering has nine lines, the absent
  email and address carry the marker, the line of the notes is empty and no line is the label
  of the notes with the marker. (The registration date has no line at all.)\<close>

theorem C7_counterexample:
  "Customer.notes sample_customer = None \<and>
   convertToText sample_runtime (CustomerData sample_customer) ''customer''
     = Inr (customerText sample_runtime sample_customer) \<and>
   split_lines (customerText sample_runtime sample_customer) =
     [T_customer, L_customerId @ ''C1'', L_name @ ''Tanaka'', L_phone @ ''090-0000-0000'',
      L_email @ NASHI, L_address @ NASHI, L_totalSales @ ''500,000'' @ YEN,
      L_visitCount @ ''3'' @ KAI, []] \<and>
   L_notes @ NASHI \<notin> set (split_lines (customerText sample_runtime sample_customer))"
proof (intro conjI)
  show "Customer.notes sample_customer = None"
    by (simp add: sample_customer_def)
  show "convertToText sample_runtime (CustomerData sample_customer) ''customer''
     = Inr (customerText sample_runtime sample_customer)"
    by (simp add: convertToText_def)
  show "split_lines (customerText sample_runtime sample_customer) =
     [T_customer, L_customerId @ ''C1'', L_name @ ''Tanaka'', L_phone @ ''090-0000-0000'',
      L_email @ NASHI, L_address @ NASHI, L_totalSales @ ''500,000'' @ YEN,
      L_visitCount @ ''3'' @ KAI, []]"
    by (rule sample_customerText_lines)
  show "L_notes @ NASHI \<notin> set (split_lines (customerText sample_runtime sample_customer))"
    by (simp add: sample_customerText_lines T_customer_def L_customerId_def L_name_def
          L_phone_def L_email_def L_address_def L_totalSales_def L_visitCount_def YEN_def
          KAI_def NASHI_def L_notes_def)
qed

text \<open>C7, amended: in the rendering of a customer, an absent or empty email and an absent or
  empty address are each a line made of the label and the marker; absent or empty notes
  leave the last line of the rendering empty, for a customer, a quote and a work history.\<close>

theorem C7_unset_markers:
  "(convertToText rt (CustomerData customer) ''customer'' = Inr text \<longrightarrow>
      (email customer = None \<or> email customer = Some [] \<longrightarrow>
         L_email @ NASHI \<in> set (split_lines text)) \<and>
      (address customer = None \<or> address customer = Some [] \<longrightarrow>
         L_address @ NASHI \<in> set (split_lines text)) \<and>
      (Customer.notes customer = None \<or> Customer.notes customer = Some [] \<longrightarrow>
         last (split_lines text) = [])) \<and>
   (convertToText rt (QuoteData quote) ''quote'' = Inr text' \<and>
      (Quote.notes quote = None \<or> Quote.notes quote = Some []) \<longrightarrow>
         last (split_lines text') = []) \<and>
   (convertToText rt (WorkHistoryData work) ''work_history'' = Inr text'' \<and>
      (WorkHistory.notes work = None \<or> WorkHistory.notes work = Some []) \<longrightarrow>
         last (split_lines text'') = [])"
proof (intro conjI)
  show "convertToText rt (CustomerData customer) ''customer'' = Inr text \<longrightarrow>
      (email customer = None \<or> email customer = Some [] \<longrightarrow>
         L_email @ NASHI \<in> set (split_lines text)) \<and>
      (address customer = None \<or> address customer = Some [] \<longrightarrow>
         L_address @ NASHI \<in> set (split_lines text)) \<and>
      (Customer.notes customer = None \<or> Customer.notes customer = Some [] \<longrightarrow>
         last (split_lines text) = [])"
  proof
    assume "convertToText rt (CustomerData customer) ''customer'' = Inr text"
    then have "text = customerText rt customer" by (simp add: convertToText_def)
    then show "(email customer = None \<or> email customer = Some [] \<longrightarrow>
         L_email @ NASHI \<in> set (split_lines text)) \<and>
      (address customer = None \<or> address customer = Some [] \<longrightarrow>
         L_address @ NASHI \<in> set (split_lines text)) \<and>
      (Customer.notes customer = None \<or> Customer.notes customer = Some [] \<longrightarrow>
         last (split_lines text) = [])"
      by (rule customer_markers)
  qed
next
  show "convertToText rt (QuoteData quote) ''quote'' = Inr text' \<and>
      (Quote.notes quote = None \<or> Quote.notes quote = Some []) \<longrightarrow>
         last (split_lines text') = []"
  proof
    assume "convertToText rt (QuoteData quote) ''quote'' = Inr text' \<and>
      (Quote.notes quote = None \<or> Quote.notes quote = Some [])"
    then have "text' = quoteText rt quote"
      and "Quote.notes quote = None \<or> Quote.notes quote = Some []"
      by (simp_all add: convertToText_def)
    then show "last (split_lines text') = []" by (simp only: quote_notes_line)
  qed
next
  show "convertToText rt (WorkHistoryData work) ''work_history'' = Inr text'' \<and>
      (WorkHistory.notes work = None \<or> WorkHistory.notes work = Some []) \<longrightarrow>
         last (split_lines text'') = []"
  proof
    assume "convertToText rt (WorkHistoryData work) ''work_history'' = Inr text'' \<and>
      (WorkHistory.notes work = None \<or> WorkHistory.notes work = Some [])"
    then have "text'' = workText rt work"
      and "WorkHistory.notes work = None \<or> WorkHistory.notes work = Some []"
      by (simp_all add: convertToText_def)
    then show "last (split_lines text'') = []" by (simp only: work_notes_line)
  qed
qed

theorem C7_unset_markers_witness:
  "convertToText sample_runtime (CustomerData sample_customer) ''customer''
     = Inr (customerText sample_runtime sample_customer) \<and>
   email sample_customer = None \<and> address sample_customer = None \<and>
   Customer.notes sample_customer = None \<and>
   L_email @ NASHI \<in> set (split_lines (customerText sample_runtime sample_customer)) \<and>
   L_address @ NASHI \<in> set (split_lines (customerText sample_runtime sample_customer)) \<and>
   last (split_lines (customerText sample_runtime sample_customer)) = [] \<and>
   convertToText sample_runtime (QuoteData sample_quote) ''quote''
     = Inr (quoteText sample_runtime sample_quote) \<and>
   Quote.notes sample_quote = None \<and>
   last (split_lines (quoteText sample_runtime sample_quote)) = [] \<and>
   convertToText sample_runtime (WorkHistoryData sample_work) ''work_history''
     = Inr (workText sample_runtime sample_work) \<and>
   WorkHistory.notes sample_work = None \<and>
   last (split_lines (workText sample_runtime sample_work)) = []"
proof -
  have run: "convertToText sample_runtime (CustomerData sample_customer) ''customer''
       = Inr (customerText sample_runtime sample_customer)"
    "convertToText sample_runtime (QuoteData sample_quote) ''quote''
       = Inr (quoteText sample_runtime sample_quote)"
    "convertToText sample_runtime (WorkHistoryData sample_work) ''work_history''
       = Inr (workText sample_runtime sample_work)"
    by (simp_all add: convertToText_def)
  have absent: "email sample_customer = None" "address sample_customer = None"
    "Customer.notes sample_customer = None" "Quote.notes sample_quote = None"
    "WorkHistory.notes sample_work = None"
    by (simp_all add: sample_customer_def sample_quote_def sample_work_def)
  from C7_unset_markers [of sample_runtime sample_customer
         "customerText sample_runtime sample_customer" sample_quote
         "quoteText sample_runtime sample_quote" sample_work
         "workText sample_runtime sample_work"] absent run
  show ?thesis by simp
qed

text \<open>C10: with a tag other than \<^verbatim>\<open>customer\<close>, \<^verbatim>\<open>quote\<close> and \<^verbatim>\<open>work_history\<close>,
  \<^verbatim>\<open>convertToText\<close> does not throw and returns \<^verbatim>\<open>JSON.stringify(data, null, 2)\<close>, for every
  record.\<close>

theorem C10_unknown_tag_json:
  "dataType' \<notin> {''customer'', ''quote'', ''work_history''} \<Longrightarrow>
     convertToText rt data dataType' = Inr (JSON_stringify rt data 2)"
  by (simp add: convertToText_def)

theorem C10_unknown_tag_json_witness:
  "convertToText sample_runtime (CustomerData sample_customer) ''invoice'' = Inr ''{}''"
  using C10_unknown_tag_json [of "''invoice''" sample_runtime "CustomerData sample_customer"]
  by (simp add: sample_runtime_def)

end
